theory Spec2Isabelle
  imports Main
begin

section \<open>Python values, exceptions and results\<close>

text \<open>
  The executor (\<^verbatim>\<open>src/sandbox/executor.py\<close>) talks to a remote platform through
  awaitable primitives. Each of them either returns or raises; the model makes the raise a
  value. \<open>TimeoutError\<close> is \<^verbatim>\<open>asyncio.TimeoutError\<close>, the one exception class the source
  catches by name; \<open>Exc m\<close> is any other \<^verbatim>\<open>Exception\<close>, with \<open>m\<close> its \<^verbatim>\<open>str()\<close>.
  Exceptions outside \<^verbatim>\<open>Exception\<close> (cancellation, interpreter exit) are not modelled.
\<close>

datatype exn = TimeoutError | Exc string

text \<open>
  What \<^verbatim>\<open>json.loads\<close> returns: a Python value. A dict is an association list read with
  \<open>map_of\<close>. Numbers are integers.
\<close>

datatype json =
    JNull
  | JBool bool
  | JNum int
  | JStr string
  | JArr "json list"
  | JObj "(string \<times> json) list"

text \<open>Python's \<^verbatim>\<open>bool(v)\<close>.\<close>

fun truthy :: "json \<Rightarrow> bool" where
  "truthy JNull = False"
| "truthy (JBool b) = b"
| "truthy (JNum n) = (n \<noteq> 0)"
| "truthy (JStr s) = (s \<noteq> [])"
| "truthy (JArr xs) = (xs \<noteq> [])"
| "truthy (JObj kvs) = (kvs \<noteq> [])"

fun type_name :: "json \<Rightarrow> string" where
  "type_name JNull = ''NoneType''"
| "type_name (JBool b) = ''bool''"
| "type_name (JNum n) = ''int''"
| "type_name (JStr s) = ''str''"
| "type_name (JArr xs) = ''list''"
| "type_name (JObj kvs) = ''dict''"

text \<open>
  \<^verbatim>\<open>v.get(key, default)\<close>: defined on a dict only; on any other value the attribute lookup
  raises \<^verbatim>\<open>AttributeError\<close>.
\<close>

definition py_get :: "json \<Rightarrow> string \<Rightarrow> json \<Rightarrow> exn + json" where
  "py_get v key dflt =
     (case v of
        JObj kvs \<Rightarrow> Inr (case map_of kvs key of None \<Rightarrow> dflt | Some x \<Rightarrow> x)
      | _ \<Rightarrow> Inl (Exc ([CHR 39] @ type_name v @ [CHR 39] @ '' object has no attribute ''
                       @ [CHR 39] @ ''get'' @ [CHR 39])))"

text \<open>Decimal text of an integer, for the f-string \<^verbatim>\<open>f"Timeout after {timeout}s"\<close>.\<close>

fun str_nat :: "nat \<Rightarrow> string" where
  "str_nat n = (if n < 10 then [''0123456789'' ! n]
                else str_nat (n div 10) @ [''0123456789'' ! (n mod 10)])"

definition str_int :: "int \<Rightarrow> string" where
  "str_int i = (if i < 0 then CHR ''-'' # str_nat (nat (- i)) else str_nat (nat i))"

text \<open>
  \<^verbatim>\<open>ExecutionResult\<close>: the dataclass of the source. The fields \<open>stdout\<close> and \<open>stderr\<close>
  are annotated \<^verbatim>\<open>str\<close> but hold whatever the response record carried, so they are Python
  values here.
\<close>

record ExecutionResult =
  success :: bool
  stdout :: json
  stderr :: json
  error :: "string option"

definition timeout_result :: "int \<Rightarrow> ExecutionResult" where
  "timeout_result timeout =
     \<lparr>success = False, stdout = JStr [], stderr = JStr [],
      error = Some (''Timeout after '' @ str_int timeout @ ''s'')\<rparr>"

definition failure_result :: "string \<Rightarrow> ExecutionResult" where
  "failure_result msg =
     \<lparr>success = False, stdout = JStr [], stderr = JStr [], error = Some msg\<rparr>"

section \<open>The platform: processes, streams and the sandbox\<close>

text \<open>
  A line as the reader of a pipe sees it once \<^verbatim>\<open>_decode_stream(line).strip()\<close> and
  \<^verbatim>\<open>json.loads\<close> have looked at it: only white space, text that \<^verbatim>\<open>json.loads\<close> rejects
  (with the message of its \<^verbatim>\<open>JSONDecodeError\<close>), or text that decodes to a value.
\<close>

datatype wire = Blank | Garbage string | Doc json

text \<open>
  Outcome of \<^verbatim>\<open>asyncio.wait_for(self._readline(stdout), timeout)\<close>: the empty byte string
  (end of stream, also \<^verbatim>\<open>StopAsyncIteration\<close>), a non-empty line, or an exception;
  \<open>ReadRaises TimeoutError\<close> is the wait running out.
\<close>

datatype read_outcome = Eof | Line wire | ReadRaises exn

text \<open>
  What \<^verbatim>\<open>stream.read()\<close> returns: \<^verbatim>\<open>None\<close>, bytes or text. Bytes are represented by the
  text that \<^verbatim>\<open>decode("utf-8", errors="ignore")\<close> makes of them.
\<close>

datatype pydata = PyNone | PyBytes string | PyStr string

text \<open>\<^verbatim>\<open>getattr(process, "returncode", 0)\<close>: the attribute may be missing, \<^verbatim>\<open>None\<close> or a number.\<close>

datatype rc_attr = NoAttr | RcNone | Rc int

text \<open>The two commands the executor spawns.\<close>

datatype cmd = PythonSession | Bash string

text \<open>
  A process handle returned by \<^verbatim>\<open>sandbox.exec\<close>. Its future behaviour is an oracle: the
  \<open>k\<close>-th write, line read or wait on it has the outcome the process gives at \<open>k\<close>; the
  counters say how many of each the executor has made so far. The handle is owned by one
  \<open>Sandbox\<close> object only, so it is kept by value.
\<close>

record process =
  pid :: nat
  stdin_present :: bool
  write_outcome :: "nat \<Rightarrow> json \<Rightarrow> exn option"
  n_writes :: nat
  stdout_present :: bool
  line_at :: "nat \<Rightarrow> int \<Rightarrow> read_outcome"
  n_reads :: nat
  stdout_read :: "(exn + pydata) option"
  stderr_present :: bool
  stderr_read :: "(exn + pydata) option"
  wait_outcome :: "nat \<Rightarrow> exn option"
  n_waits :: nat
  returncode :: rc_attr

text \<open>
  The calls made on the platform, in order. \<open>EvCreate h v\<close>: sandbox \<open>h\<close> was created,
  with the volume attached iff \<open>v\<close>.
\<close>

datatype event =
    EvCreate nat bool
  | EvExec cmd nat
  | EvExecFailed cmd
  | EvWrite nat json
  | EvReadLine nat
  | EvWait nat
  | EvTerminate nat

text \<open>
  The platform. \<open>exec_outcome k c t\<close> is what the \<open>k\<close>-th \<^verbatim>\<open>exec\<close> call does when asked
  for command \<open>c\<close> with timeout \<open>t\<close>: raise, or return a process. \<open>n_restarts\<close> counts
  the calls of \<^verbatim>\<open>_restart_python_session\<close>; it and \<open>trace\<close> are observations added to the
  model, the source has no such fields.
\<close>

record world =
  exec_outcome :: "nat \<Rightarrow> cmd \<Rightarrow> int \<Rightarrow> exn + process"
  n_exec :: nat
  app_lookup_outcome :: "nat \<Rightarrow> exn option"
  volume_outcome :: "nat \<Rightarrow> exn option"
  create_outcome :: "nat \<Rightarrow> exn option"
  n_create :: nat
  terminate_outcome :: "nat \<Rightarrow> exn option"
  n_terminate :: nat
  trace :: "event list"
  n_restarts :: nat

text \<open>\<^verbatim>\<open>class Sandbox\<close>: \<open>sb\<close> is the handle of the platform sandbox.\<close>

record Sandbox =
  session_id :: string
  sb :: nat
  python_proc :: "process option"

definition log :: "event \<Rightarrow> world \<Rightarrow> world" where
  "log e w = w\<lparr>trace := trace w @ [e]\<rparr>"

text \<open>\<^verbatim>\<open>await self._sandbox.exec.aio(..., timeout=timeout)\<close>\<close>

definition sandbox_exec :: "cmd \<Rightarrow> int \<Rightarrow> world \<Rightarrow> (exn + process) \<times> world" where
  "sandbox_exec c timeout w =
     (case exec_outcome w (n_exec w) c timeout of
        Inl e \<Rightarrow> (Inl e, log (EvExecFailed c) (w\<lparr>n_exec := Suc (n_exec w)\<rparr>))
      | Inr p \<Rightarrow> (Inr (p\<lparr>pid := n_exec w\<rparr>),
                  log (EvExec c (n_exec w)) (w\<lparr>n_exec := Suc (n_exec w)\<rparr>)))"

text \<open>\<^verbatim>\<open>stdin.write(message); await stdin.drain.aio()\<close>\<close>

definition proc_write :: "json \<Rightarrow> world \<Rightarrow> process \<Rightarrow> exn option \<times> world \<times> process" where
  "proc_write msg w p =
     (write_outcome p (n_writes p) msg,
      log (EvWrite (pid p) msg) w,
      p\<lparr>n_writes := Suc (n_writes p)\<rparr>)"

text \<open>\<^verbatim>\<open>await asyncio.wait_for(self._readline(stdout), timeout=timeout)\<close>\<close>

definition proc_readline :: "int \<Rightarrow> world \<Rightarrow> process \<Rightarrow> read_outcome \<times> world \<times> process" where
  "proc_readline timeout w p =
     (line_at p (n_reads p) timeout,
      log (EvReadLine (pid p)) w,
      p\<lparr>n_reads := Suc (n_reads p)\<rparr>)"

text \<open>\<^verbatim>\<open>await process.wait.aio()\<close>\<close>

definition proc_wait :: "world \<Rightarrow> process \<Rightarrow> exn option \<times> world \<times> process" where
  "proc_wait w p =
     (wait_outcome p (n_waits p),
      log (EvWait (pid p)) w,
      p\<lparr>n_waits := Suc (n_waits p)\<rparr>)"

section \<open>The persistent Python session\<close>

text \<open>
  \<^verbatim>\<open>_PYTHON_SESSION_INIT\<close>, the text of the initialization snippet, and the two request
  records the executor writes.
\<close>

definition PYTHON_SESSION_INIT :: string where
  "PYTHON_SESSION_INIT =
     [CHR 10] @ ''import numpy as np'' @ [CHR 10] @ ''import pandas as pd'' @ [CHR 10]
     @ ''import json'' @ [CHR 10] @ ''import sys'' @ [CHR 10]
     @ ''sys.path.insert(0, '' @ [CHR 39] @ ''/mnt/servers'' @ [CHR 39] @ '')'' @ [CHR 10]"

definition code_request :: "string \<Rightarrow> json" where
  "code_request code = JObj [(''code'', JStr code)]"

definition terminate_request :: json where
  "terminate_request = JObj [(''_terminate'', JBool True)]"

definition empty_response :: json where
  "empty_response = JObj [(''ok'', JBool True), (''stdout'', JStr []), (''stderr'', JStr [])]"

text \<open>
  Lines 259 to 266 of \<^verbatim>\<open>Sandbox._communicate_with_python\<close>: what the function makes of the
  outcome of the wait. An empty read is an error, a line of white space stands for an empty
  successful response, anything else goes through \<^verbatim>\<open>json.loads\<close>.
\<close>

definition decode_response :: "read_outcome \<Rightarrow> exn + json" where
  "decode_response r =
     (case r of
        ReadRaises e \<Rightarrow> Inl e
      | Eof \<Rightarrow> Inl (Exc ''Python session terminated unexpectedly'')
      | Line Blank \<Rightarrow> Inr empty_response
      | Line (Garbage m) \<Rightarrow> Inl (Exc m)
      | Line (Doc j) \<Rightarrow> Inr j)"

text \<open>\<^verbatim>\<open>Sandbox._communicate_with_python\<close>\<close>

definition communicate_with_python ::
  "json \<Rightarrow> int \<Rightarrow> world \<Rightarrow> Sandbox \<Rightarrow> (exn + json) \<times> world \<times> Sandbox" where
  "communicate_with_python payload timeout w s =
     (case python_proc s of
        None \<Rightarrow> (Inl (Exc ''Python session is not initialized''), w, s)
      | Some p \<Rightarrow>
          if \<not> stdin_present p \<or> \<not> stdout_present p
          then (Inl (Exc ''Python session streams are unavailable''), w, s)
          else
            (case proc_write payload w p of
               (Some e, w1, p1) \<Rightarrow> (Inl e, w1, s\<lparr>python_proc := Some p1\<rparr>)
             | (None, w1, p1) \<Rightarrow>
                 (case proc_readline timeout w1 p1 of
                    (r, w2, p2) \<Rightarrow> (decode_response r, w2, s\<lparr>python_proc := Some p2\<rparr>))))"

text \<open>\<^verbatim>\<open>Sandbox._start_python_session\<close>: the handle is stored before the snippet is sent.\<close>

definition start_python_session :: "int \<Rightarrow> world \<Rightarrow> Sandbox \<Rightarrow> (exn + unit) \<times> world \<times> Sandbox" where
  "start_python_session timeout w s =
     (case sandbox_exec PythonSession timeout w of
        (Inl e, w1) \<Rightarrow> (Inl e, w1, s)
      | (Inr p, w1) \<Rightarrow>
          (case communicate_with_python (code_request PYTHON_SESSION_INIT) timeout w1
                  (s\<lparr>python_proc := Some p\<rparr>) of
             (Inl e, w2, s2) \<Rightarrow> (Inl e, w2, s2)
           | (Inr _, w2, s2) \<Rightarrow> (Inr (), w2, s2)))"

text \<open>\<^verbatim>\<open>Sandbox._ensure_python_session\<close>\<close>

definition ensure_python_session :: "int \<Rightarrow> world \<Rightarrow> Sandbox \<Rightarrow> (exn + unit) \<times> world \<times> Sandbox" where
  "ensure_python_session timeout w s =
     (if python_proc s \<noteq> None then (Inr (), w, s) else start_python_session timeout w s)"

text \<open>
  \<^verbatim>\<open>Sandbox._stop_python_session\<close>. Every exception of the body is swallowed
  (\<^verbatim>\<open>except Exception: pass\<close>, \<^verbatim>\<open>contextlib.suppress\<close>); a write that raises skips the
  read. The \<^verbatim>\<open>finally\<close> block waits for the process and clears the handle.
\<close>

definition stop_python_session :: "world \<Rightarrow> Sandbox \<Rightarrow> world \<times> Sandbox" where
  "stop_python_session w s =
     (case python_proc s of
        None \<Rightarrow> (w, s)
      | Some p \<Rightarrow>
          (case (if stdin_present p then proc_write terminate_request w p else (None, w, p)) of
             (wr, w1, p1) \<Rightarrow>
               (case (if wr = None \<and> stdout_present p then
                        (case proc_readline 5 w1 p1 of (_, w', p') \<Rightarrow> (w', p'))
                      else (w1, p1)) of
                  (w2, p2) \<Rightarrow>
                    (case proc_wait w2 p2 of
                       (_, w3, _) \<Rightarrow> (w3, s\<lparr>python_proc := None\<rparr>)))))"

text \<open>\<^verbatim>\<open>Sandbox._restart_python_session\<close>\<close>

definition restart_python_session :: "int \<Rightarrow> world \<Rightarrow> Sandbox \<Rightarrow> (exn + unit) \<times> world \<times> Sandbox" where
  "restart_python_session timeout w s =
     (case stop_python_session (w\<lparr>n_restarts := Suc (n_restarts w)\<rparr>) s of
        (w1, s1) \<Rightarrow> start_python_session timeout w1 s1)"

text \<open>
  Lines 162 to 166 of \<^verbatim>\<open>Sandbox.execute_python\<close>: the result built from the response.
  \<^verbatim>\<open>response.get\<close> raises on a response that is not a dict; a dict without a key gets the
  default of that key.
\<close>

definition build_result :: "json \<Rightarrow> exn + ExecutionResult" where
  "build_result response =
     (case py_get response ''ok'' (JBool False) of
        Inl e \<Rightarrow> Inl e
      | Inr ok \<Rightarrow>
          (case py_get response ''stdout'' (JStr []) of
             Inl e \<Rightarrow> Inl e
           | Inr out \<Rightarrow>
               (case py_get response ''stderr'' (JStr []) of
                  Inl e \<Rightarrow> Inl e
                | Inr err \<Rightarrow>
                    Inr \<lparr>success = truthy ok, stdout = out, stderr = err, error = None\<rparr>)))"

text \<open>
  The body of the \<^verbatim>\<open>try\<close> in \<^verbatim>\<open>Sandbox.execute_python\<close>: ensure the session, exchange
  one request, build the result.
\<close>

definition python_attempt ::
  "string \<Rightarrow> int \<Rightarrow> world \<Rightarrow> Sandbox \<Rightarrow> (exn + ExecutionResult) \<times> world \<times> Sandbox" where
  "python_attempt code timeout w s =
     (case ensure_python_session timeout w s of
        (Inl e, w1, s1) \<Rightarrow> (Inl e, w1, s1)
      | (Inr _, w1, s1) \<Rightarrow>
          (case communicate_with_python (code_request code) timeout w1 s1 of
             (Inl e, w2, s2) \<Rightarrow> (Inl e, w2, s2)
           | (Inr response, w2, s2) \<Rightarrow> (build_result response, w2, s2)))"

text \<open>
  \<^verbatim>\<open>Sandbox.execute_python\<close>: the loop \<^verbatim>\<open>for attempt in range(2)\<close>, unrolled by
  recursion on the number of attempts left. The restart runs inside the \<^verbatim>\<open>except\<close>
  handler, so an exception it raises leaves the function. After the last attempt the
  text of \<open>last_error\<close> is returned.
\<close>

fun python_attempts ::
  "nat \<Rightarrow> string option \<Rightarrow> string \<Rightarrow> int \<Rightarrow> world \<Rightarrow> Sandbox
     \<Rightarrow> (exn + ExecutionResult) \<times> world \<times> Sandbox" where
  "python_attempts 0 last_error code timeout w s =
     (Inr (failure_result (case last_error of Some m \<Rightarrow> m | None \<Rightarrow> ''Python session failed'')),
      w, s)"
| "python_attempts (Suc n) last_error code timeout w s =
     (case python_attempt code timeout w s of
        (Inr r, w1, s1) \<Rightarrow> (Inr r, w1, s1)
      | (Inl TimeoutError, w1, s1) \<Rightarrow> (Inr (timeout_result timeout), w1, s1)
      | (Inl (Exc m), w1, s1) \<Rightarrow>
          (case restart_python_session timeout w1 s1 of
             (Inl e, w2, s2) \<Rightarrow> (Inl e, w2, s2)
           | (Inr _, w2, s2) \<Rightarrow> python_attempts n (Some m) code timeout w2 s2))"

definition execute_python ::
  "string \<Rightarrow> int \<Rightarrow> world \<Rightarrow> Sandbox \<Rightarrow> (exn + ExecutionResult) \<times> world \<times> Sandbox" where
  "execute_python code timeout w s = python_attempts 2 None code timeout w s"

section \<open>One-shot shell commands\<close>

text \<open>
  \<^verbatim>\<open>Sandbox._read_stream\<close>: a missing stream and a stream without a \<^verbatim>\<open>read\<close> attribute
  both give the empty byte string; otherwise the call returns data or raises.
\<close>

definition read_stream :: "bool \<Rightarrow> (exn + pydata) option \<Rightarrow> exn + pydata" where
  "read_stream present rd =
     (if \<not> present then Inr (PyBytes [])
      else (case rd of None \<Rightarrow> Inr (PyBytes []) | Some r \<Rightarrow> r))"

text \<open>\<^verbatim>\<open>Sandbox._decode_stream\<close>\<close>

fun decode_stream :: "pydata \<Rightarrow> string" where
  "decode_stream PyNone = []"
| "decode_stream (PyBytes t) = t"
| "decode_stream (PyStr t) = t"

text \<open>\<^verbatim>\<open>getattr(process, "returncode", 0) == 0\<close>\<close>

fun returncode_is_zero :: "rc_attr \<Rightarrow> bool" where
  "returncode_is_zero NoAttr = True"
| "returncode_is_zero RcNone = False"
| "returncode_is_zero (Rc n) = (n = 0)"

text \<open>The body of the \<^verbatim>\<open>try\<close> in \<^verbatim>\<open>Sandbox.execute_bash\<close>.\<close>

definition bash_body ::
  "string \<Rightarrow> int \<Rightarrow> world \<Rightarrow> (exn + ExecutionResult) \<times> world" where
  "bash_body command timeout w =
     (case sandbox_exec (Bash command) timeout w of
        (Inl e, w1) \<Rightarrow> (Inl e, w1)
      | (Inr p, w1) \<Rightarrow>
          (case read_stream (stdout_present p) (stdout_read p) of
             Inl e \<Rightarrow> (Inl e, w1)
           | Inr out \<Rightarrow>
               (case read_stream (stderr_present p) (stderr_read p) of
                  Inl e \<Rightarrow> (Inl e, w1)
                | Inr err \<Rightarrow>
                    (case proc_wait w1 p of
                       (Some e, w2, p2) \<Rightarrow> (Inl e, w2)
                     | (None, w2, p2) \<Rightarrow>
                         (Inr \<lparr>success = returncode_is_zero (returncode p2),
                               stdout = JStr (decode_stream out),
                               stderr = JStr (decode_stream err),
                               error = None\<rparr>, w2)))))"

text \<open>\<^verbatim>\<open>Sandbox.execute_bash\<close>: both handlers return a result.\<close>

definition execute_bash ::
  "string \<Rightarrow> int \<Rightarrow> world \<Rightarrow> Sandbox \<Rightarrow> ExecutionResult \<times> world \<times> Sandbox" where
  "execute_bash command timeout w s =
     (case bash_body command timeout w of
        (Inr r, w1) \<Rightarrow> (r, w1, s)
      | (Inl TimeoutError, w1) \<Rightarrow> (timeout_result timeout, w1, s)
      | (Inl (Exc m), w1) \<Rightarrow> (failure_result m, w1, s))"

section \<open>Creating and terminating a sandbox\<close>

definition DEFAULT_TIMEOUT :: int where
  "DEFAULT_TIMEOUT = 120"

text \<open>
  \<^verbatim>\<open>Sandbox.create\<close>: the application lookup and the creation of the platform sandbox may
  raise; a failing volume lookup is caught and the sandbox is created without the volume.
  The handle of the new sandbox is the number of the call. The event records whether the
  volume was attached.
\<close>

definition create :: "string \<Rightarrow> int \<Rightarrow> world \<Rightarrow> (exn + Sandbox) \<times> world" where
  "create sid timeout w =
     (let k = n_create w; w1 = w\<lparr>n_create := Suc k\<rparr> in
      case app_lookup_outcome w k of
        Some e \<Rightarrow> (Inl e, w1)
      | None \<Rightarrow>
          (case create_outcome w k of
             Some e \<Rightarrow> (Inl e, w1)
           | None \<Rightarrow> (Inr \<lparr>session_id = sid, sb = k, python_proc = None\<rparr>,
                       log (EvCreate k (volume_outcome w k = None)) w1)))"

text \<open>\<^verbatim>\<open>Sandbox.terminate\<close>\<close>

definition terminate :: "world \<Rightarrow> Sandbox \<Rightarrow> (exn + unit) \<times> world \<times> Sandbox" where
  "terminate w s =
     (case stop_python_session w s of
        (w1, s1) \<Rightarrow>
          ((case terminate_outcome w1 (n_terminate w1) of None \<Rightarrow> Inr () | Some e \<Rightarrow> Inl e),
           log (EvTerminate (sb s1)) (w1\<lparr>n_terminate := Suc (n_terminate w1)\<rparr>),
           s1))"

text \<open>
  \<^verbatim>\<open>run_python\<close> and \<^verbatim>\<open>run_bash\<close>: \<^verbatim>\<open>try: return ... finally: await sandbox.terminate()\<close>.
  An exception of the \<^verbatim>\<open>finally\<close> block replaces the outcome of the \<^verbatim>\<open>try\<close>.
\<close>

definition run_python :: "string \<Rightarrow> string \<Rightarrow> world \<Rightarrow> (exn + ExecutionResult) \<times> world" where
  "run_python code sid w =
     (case create sid 600 w of
        (Inl e, w1) \<Rightarrow> (Inl e, w1)
      | (Inr s, w1) \<Rightarrow>
          (case execute_python code DEFAULT_TIMEOUT w1 s of
             (r, w2, s2) \<Rightarrow>
               (case terminate w2 s2 of
                  (Inl e, w3, s3) \<Rightarrow> (Inl e, w3)
                | (Inr _, w3, s3) \<Rightarrow> (r, w3))))"

definition run_bash :: "string \<Rightarrow> string \<Rightarrow> world \<Rightarrow> (exn + ExecutionResult) \<times> world" where
  "run_bash command sid w =
     (case create sid 600 w of
        (Inl e, w1) \<Rightarrow> (Inl e, w1)
      | (Inr s, w1) \<Rightarrow>
          (case execute_bash command DEFAULT_TIMEOUT w1 s of
             (r, w2, s2) \<Rightarrow>
               (case terminate w2 s2 of
                  (Inl e, w3, s3) \<Rightarrow> (Inl e, w3)
                | (Inr _, w3, s3) \<Rightarrow> (Inr r, w3))))"

section \<open>The registry of sandboxes\<close>

text \<open>
  \<^verbatim>\<open>_sandboxes\<close> of \<^verbatim>\<open>src/agents/base.py\<close>, a dict from session id to \<open>Sandbox\<close>. An object
  is identified by the handle \<open>sb\<close> of its platform sandbox, which \<open>create\<close> never
  gives twice.
\<close>

type_synonym registry = "string \<rightharpoonup> Sandbox"

text \<open>\<^verbatim>\<open>_get_sandbox\<close>\<close>

definition get_sandbox ::
  "string \<Rightarrow> world \<Rightarrow> registry \<Rightarrow> (exn + Sandbox) \<times> world \<times> registry" where
  "get_sandbox sid w reg =
     (case reg sid of
        Some s \<Rightarrow> (Inr s, w, reg)
      | None \<Rightarrow>
          (case create sid 600 w of
             (Inl e, w1) \<Rightarrow> (Inl e, w1, reg)
           | (Inr s, w1) \<Rightarrow> (Inr s, w1, reg(sid \<mapsto> s))))"

text \<open>
  \<^verbatim>\<open>cleanup_sandbox\<close>: when \<open>terminate\<close> raises, the \<^verbatim>\<open>del\<close> is not reached; the entry
  stays, with the object as \<open>terminate\<close> left it.
\<close>

definition cleanup_sandbox ::
  "string \<Rightarrow> world \<Rightarrow> registry \<Rightarrow> (exn + unit) \<times> world \<times> registry" where
  "cleanup_sandbox sid w reg =
     (case reg sid of
        None \<Rightarrow> (Inr (), w, reg)
      | Some s \<Rightarrow>
          (case terminate w s of
             (Inl e, w1, s1) \<Rightarrow> (Inl e, w1, reg(sid \<mapsto> s1))
           | (Inr _, w1, s1) \<Rightarrow> (Inr (), w1, reg(sid := None))))"

section \<open>The resident loop\<close>

text \<open>
  \<^verbatim>\<open>_PYTHON_SESSION_SCRIPT\<close>, the program of the resident process. Running a snippet is
  Python's \<^verbatim>\<open>exec\<close> on the namespace, a parameter \<open>ex\<close> of the model: the snippet
  finishes, raises an \<^verbatim>\<open>Exception\<close> (with the text of the traceback), or raises
  something \<^verbatim>\<open>except Exception\<close> does not catch, such as \<^verbatim>\<open>SystemExit\<close>. In the first two
  cases it has written text to the two redirected streams.
\<close>

datatype exec_outcome =
    Finished string string
  | Raised string string string
  | Escaped

text \<open>
  The snippet runs inside the process of the loop. \<^verbatim>\<open>redirect_stdout\<close> swaps \<^verbatim>\<open>sys.stdout\<close>
  only, and \<^verbatim>\<open>sys.stdin\<close> is the stream the loop iterates over, so besides its outcome a
  snippet has an effect on the two pipes of the protocol:
  \<^item> \<open>direct\<close>: the complete lines it wrote to the standard output of the process
    itself (file descriptor 1, a child process), past the redirection;
  \<^item> \<open>spoil\<close>: text other than white space that it left there without a newline; the line
    the loop prints next starts with it and no longer decodes (\<open>Some\<close> the message of the
    decoding error);
  \<^item> \<open>taken\<close>: how many of the following lines of standard input it read itself.

  A snippet that never returns, or that rebinds the modules the loop uses, is outside the
  model.
\<close>

record effect =
  outcome :: exec_outcome
  direct :: "wire list"
  spoil :: "string option"
  taken :: nat

definition response :: "bool \<Rightarrow> string \<Rightarrow> string \<Rightarrow> json" where
  "response ok out err = JObj [(''ok'', JBool ok), (''stdout'', JStr out), (''stderr'', JStr err)]"

text \<open>
  \<^verbatim>\<open>run(code)\<close>: the response record, \<open>None\<close> when the exception leaves the function;
  with it the effect of the snippet and the namespace it left.
\<close>

definition run ::
  "(json \<Rightarrow> 'ns \<Rightarrow> effect \<times> 'ns) \<Rightarrow> json \<Rightarrow> 'ns \<Rightarrow> json option \<times> effect \<times> 'ns" where
  "run ex code ns =
     (case ex code ns of
        (e, ns') \<Rightarrow>
          ((case outcome e of
              Finished out err \<Rightarrow> Some (response True out err)
            | Raised out err tb \<Rightarrow> Some (response False out (err @ tb))
            | Escaped \<Rightarrow> None),
           e, ns'))"

text \<open>
  The line that \<^verbatim>\<open>print(json.dumps(payload), flush=True)\<close> puts on the pipe after a snippet
  with effect \<open>e\<close>, as its reader sees it, and the line that unfinished text makes when
  the process ends instead.
\<close>

definition printed :: "effect \<Rightarrow> json \<Rightarrow> wire" where
  "printed e resp = (case spoil e of None \<Rightarrow> Doc resp | Some m \<Rightarrow> Garbage m)"

definition leftover :: "effect \<Rightarrow> wire list" where
  "leftover e = (case spoil e of None \<Rightarrow> [] | Some m \<Rightarrow> [Garbage m])"

datatype loop_end = StdinClosed | Terminated | Crashed

text \<open>
  \<^verbatim>\<open>for line in sys.stdin: ...\<close> on the lines of standard input, giving the lines that
  appear on standard output, how the loop ended and the namespace. \<^verbatim>\<open>json.loads\<close> and the
  two \<^verbatim>\<open>message.get\<close> calls are outside any \<^verbatim>\<open>try\<close>: an exception of theirs ends the
  program. After a snippet the loop goes on with the lines the snippet did not read.
\<close>

function resident_loop ::
  "(json \<Rightarrow> 'ns \<Rightarrow> effect \<times> 'ns) \<Rightarrow> 'ns \<Rightarrow> wire list \<Rightarrow> wire list \<times> loop_end \<times> 'ns" where
  "resident_loop ex ns [] = ([], StdinClosed, ns)"
| "resident_loop ex ns (Blank # ls) = resident_loop ex ns ls"
| "resident_loop ex ns (Garbage m # ls) = ([], Crashed, ns)"
| "resident_loop ex ns (Doc message # ls) =
     (case py_get message ''_terminate'' JNull of
        Inl e \<Rightarrow> ([], Crashed, ns)
      | Inr t \<Rightarrow>
          if truthy t then ([Doc empty_response], Terminated, ns)
          else
            (case py_get message ''code'' (JStr []) of
               Inl e \<Rightarrow> ([], Crashed, ns)
             | Inr code \<Rightarrow>
                 (case run ex code ns of
                    (None, e, ns') \<Rightarrow> (direct e @ leftover e, Crashed, ns')
                  | (Some resp, e, ns') \<Rightarrow>
                      (case resident_loop ex ns' (drop (taken e) ls) of
                         (outs, fin, ns'') \<Rightarrow> (direct e @ printed e resp # outs, fin, ns'')))))"
  by pat_completeness auto
termination
  by (relation "measure (\<lambda>(ex, ns, ls). length ls)") auto

section \<open>Auxiliary notions for the proofs\<close>

text \<open>
  What no operation of a sandbox changes: the oracles of the platform, the number of
  platform terminations, and the identity of the sandbox.
\<close>

definition same_sandbox :: "world \<times> Sandbox \<Rightarrow> world \<times> Sandbox \<Rightarrow> bool" where
  "same_sandbox x y \<longleftrightarrow>
     n_terminate (fst y) = n_terminate (fst x)
     \<and> terminate_outcome (fst y) = terminate_outcome (fst x)
     \<and> exec_outcome (fst y) = exec_outcome (fst x)
     \<and> sb (snd y) = sb (snd x)
     \<and> session_id (snd y) = session_id (snd x)"

text \<open>The process handle after one more write and one more line read.\<close>

definition exchanged :: "process \<Rightarrow> process" where
  "exchanged p = p\<lparr>n_writes := Suc (n_writes p), n_reads := Suc (n_reads p)\<rparr>"

text \<open>The platform after a request has been written to a process and one line waited for.\<close>

definition after_exchange :: "process \<Rightarrow> json \<Rightarrow> world \<Rightarrow> world" where
  "after_exchange p payload w = log (EvReadLine (pid p)) (log (EvWrite (pid p) payload) w)"

text \<open>
  A session that can exchange a request: it has a process with both streams, and the next
  write of the payload on it succeeds.
\<close>

definition ready :: "Sandbox \<Rightarrow> process \<Rightarrow> json \<Rightarrow> bool" where
  "ready s p payload \<longleftrightarrow>
     python_proc s = Some p \<and> stdin_present p \<and> stdout_present p
     \<and> write_outcome p (n_writes p) payload = None"

text \<open>
  The response record in the words of the specification (section 4.2): a record with a
  boolean \<^verbatim>\<open>ok\<close> and two strings \<^verbatim>\<open>stdout\<close> and \<^verbatim>\<open>stderr\<close>. The source has no such check.
\<close>

fun spec_well_formed_response :: "json \<Rightarrow> bool" where
  "spec_well_formed_response (JObj kvs) =
     (case (map_of kvs ''ok'', map_of kvs ''stdout'', map_of kvs ''stderr'') of
        (Some (JBool _), Some (JStr _), Some (JStr _)) \<Rightarrow> True
      | _ \<Rightarrow> False)"
| "spec_well_formed_response _ = False"





text \<open>
  The requests written to the standard input of process \<open>q\<close>, in the order of the trace,
  the termination request left out. A write that raised is in the trace too: the message was
  handed to the stream.
\<close>

fun request_of :: "nat \<Rightarrow> event \<Rightarrow> json list" where
  "request_of q (EvWrite q' m) = (if q' = q \<and> m \<noteq> terminate_request then [m] else [])"
| "request_of q _ = []"

definition requests :: "nat \<Rightarrow> event list \<Rightarrow> json list" where
  "requests q tr = concat (map (request_of q) tr)"

text \<open>Process \<open>q\<close> got no request yet, or the first one was the initialization snippet.\<close>

definition init_first :: "nat \<Rightarrow> event list \<Rightarrow> bool" where
  "init_first q tr =
     (case requests q tr of [] \<Rightarrow> True | m # _ \<Rightarrow> m = code_request PYTHON_SESSION_INIT)"

text \<open>
  The invariant of a sandbox on its platform: every process got the initialization snippet
  first, no process that does not exist yet got a request, and the process of the session, if
  it has the two streams a request needs, has got a request already.
\<close>

definition session_inv :: "world \<times> Sandbox \<Rightarrow> bool" where
  "session_inv x \<longleftrightarrow>
     (\<forall>q. init_first q (trace (fst x)))
     \<and> (\<forall>q. n_exec (fst x) \<le> q \<longrightarrow> requests q (trace (fst x)) = [])
     \<and> (\<forall>p. python_proc (snd x) = Some p \<longrightarrow>
            pid p < n_exec (fst x)
            \<and> (stdin_present p \<and> stdout_present p \<longrightarrow> requests (pid p) (trace (fst x)) \<noteq> []))"

text \<open>
  A caller's history with one \<open>Sandbox\<close> object: the public operations called one after the
  other. The caller goes on whether a call returned or raised.
\<close>

datatype call = ExecutePython string int | ExecuteBash string int | Terminate

fun run_call :: "call \<Rightarrow> world \<times> Sandbox \<Rightarrow> world \<times> Sandbox" where
  "run_call (ExecutePython code timeout) (w, s) = snd (execute_python code timeout w s)"
| "run_call (ExecuteBash command timeout) (w, s) = snd (execute_bash command timeout w s)"
| "run_call Terminate (w, s) = snd (terminate w s)"

fun run_calls :: "call list \<Rightarrow> world \<times> Sandbox \<Rightarrow> world \<times> Sandbox" where
  "run_calls [] x = x"
| "run_calls (c # cs) x = run_calls cs (run_call c x)"

section \<open>Example platforms\<close>

text \<open>
  A process with all three streams, on which every write and every wait succeeds, whose
  standard output is at its end, and which has exited with code 0.
\<close>

definition quiet_process :: process where
  "quiet_process =
     \<lparr>pid = 0, stdin_present = True, write_outcome = (\<lambda>k m. None), n_writes = 0,
      stdout_present = True, line_at = (\<lambda>k t. Eof), n_reads = 0,
      stdout_read = Some (Inr (PyBytes [])), stderr_present = True,
      stderr_read = Some (Inr (PyBytes [])),
      wait_outcome = (\<lambda>k. None), n_waits = 0, returncode = Rc 0\<rparr>"

text \<open>
  A platform whose sandbox no longer runs processes (a sandbox lives for the ten minutes
  \<open>create\<close> asks for): every \<^verbatim>\<open>exec\<close> raises.
\<close>

definition gone_world :: world where
  "gone_world =
     \<lparr>exec_outcome = (\<lambda>k c t. Inl (Exc ''sandbox is gone'')), n_exec = 0,
      app_lookup_outcome = (\<lambda>k. None), volume_outcome = (\<lambda>k. None),
      create_outcome = (\<lambda>k. None), n_create = 0,
      terminate_outcome = (\<lambda>k. None), n_terminate = 0, trace = [], n_restarts = 0\<rparr>"

text \<open>The object \<^verbatim>\<open>Sandbox.__init__\<close> builds for the first platform sandbox.\<close>

definition fresh_sandbox :: Sandbox where
  "fresh_sandbox = \<lparr>session_id = ''default'', sb = 0, python_proc = None\<rparr>"

text \<open>
  A platform for shell commands: the first \<^verbatim>\<open>exec\<close> returns a process that has printed
  \<^verbatim>\<open>hi\<close> and exited with 0, the second one that printed to standard error and exited with
  2, the third raises \<^verbatim>\<open>TimeoutError\<close>, all later ones raise another exception.
\<close>

definition shell_world :: world where
  "shell_world =
     gone_world\<lparr>exec_outcome := (\<lambda>k c t.
        if k = 0 then Inr (quiet_process\<lparr>stdout_read := Some (Inr (PyBytes (''hi'' @ [CHR 10])))\<rparr>)
        else if k = 1 then Inr (quiet_process\<lparr>stderr_read := Some (Inr (PyStr ''no such file'')),
                                              returncode := Rc 2\<rparr>)
        else if k = 2 then Inl TimeoutError
        else Inl (Exc ''sandbox is gone''))\<rparr>"

text \<open>
  A session process that answers the successive line reads with the outcomes of a list,
  and is at the end of its output after them.
\<close>

definition session_process :: "read_outcome list \<Rightarrow> process" where
  "session_process rs =
     quiet_process\<lparr>line_at := (\<lambda>k t. if k < length rs then rs ! k else Eof)\<rparr>"

text \<open>A platform whose successive \<^verbatim>\<open>exec\<close> calls return the processes of a list, then raise.\<close>

definition session_world :: "process list \<Rightarrow> world" where
  "session_world ps =
     gone_world\<lparr>exec_outcome := (\<lambda>k c t.
        if k < length ps then Inr (ps ! k) else Inl (Exc ''sandbox is gone''))\<rparr>"

text \<open>A sandbox whose session already runs the given process.\<close>

definition running_sandbox :: "process \<Rightarrow> Sandbox" where
  "running_sandbox p = fresh_sandbox\<lparr>python_proc := Some p\<rparr>"


text \<open>
  A toy interpreter for the resident loop. It knows two snippets that stay inside the
  redirection, one that starts a child process which prints a line on the standard output
  of the loop's process, and one that reads the next line of standard input; it treats every
  other text as a snippet that prints nothing, and lets \<^verbatim>\<open>compile\<close> raise on a value that is
  not text. The namespace counts the snippets run.
\<close>

definition quiet_effect :: "exec_outcome \<Rightarrow> effect" where
  "quiet_effect oc = \<lparr>outcome = oc, direct = [], spoil = None, taken = 0\<rparr>"

definition toy_exec :: "json \<Rightarrow> nat \<Rightarrow> effect \<times> nat" where
  "toy_exec code ns =
     (case code of
        JStr c \<Rightarrow>
          if c = ''print(1)'' then (quiet_effect (Finished (''1'' @ [CHR 10]) []), Suc ns)
          else if c = ''1/0''
            then (quiet_effect (Raised [] [] ''ZeroDivisionError: division by zero''), Suc ns)
          else if c = ''import os; os.system('' @ [CHR 39] @ ''date'' @ [CHR 39] @ '')''
            then ((quiet_effect (Finished [] []))
                    \<lparr>direct := [Garbage ''Expecting value: line 1 column 1 (char 0)'']\<rparr>, Suc ns)
          else if c = ''input()''
            then ((quiet_effect (Finished [] []))\<lparr>taken := 1\<rparr>, Suc ns)
          else (quiet_effect (Finished [] []), Suc ns)
      | _ \<Rightarrow> (quiet_effect (Raised [] [] ''TypeError: compile() arg 1 must be a string''), ns))"

text \<open>
  A running session whose next wait runs out and which then prints what the resident loop
  answers to \<^verbatim>\<open>print(1)\<close>.
\<close>

definition late_process :: process where
  "late_process =
     session_process [ReadRaises TimeoutError, Line (Doc (response True (''1'' @ [CHR 10]) []))]"

text \<open>A running session that answers its next request with a record that has only \<^verbatim>\<open>ok\<close>.\<close>

definition sloppy_process :: process where
  "sloppy_process = session_process [Line (Doc (JObj [(''ok'', JBool True)]))]"

text \<open>
  A platform whose processes answer the initialization snippet and then die: they are at
  the end of their output when the first request of a caller is sent.
\<close>

definition dying_process :: process where
  "dying_process = session_process [Line (Doc empty_response)]"

definition dying_world :: world where
  "dying_world = session_world [dying_process, dying_process, dying_process]"

text \<open>
  A platform whose first process is a healthy resident loop: it answers the initialization
  snippet, a snippet that prints nothing and a snippet that prints \<^verbatim>\<open>1\<close>.
\<close>

definition healthy_world :: world where
  "healthy_world =
     session_world [session_process
       [Line (Doc empty_response), Line (Doc (response True [] [])),
        Line (Doc (response True (''1'' @ [CHR 10]) []))]]"



text \<open>A platform whose termination call raises every time.\<close>

definition stuck_world :: world where
  "stuck_world = gone_world\<lparr>terminate_outcome := (\<lambda>k. Some (Exc ''terminate failed''))\<rparr>"

text \<open>
  A platform for shell commands that go wrong after the spawn: the first process raises
  when its standard output is read, the second when its standard error is read, the wait for
  the third runs out, and the wait for the fourth raises another exception.
\<close>

definition faulty_shell_world :: world where
  "faulty_shell_world =
     gone_world\<lparr>exec_outcome := (\<lambda>k c t.
        if k = 0 then Inr (quiet_process\<lparr>stdout_read := Some (Inl (Exc ''stream closed''))\<rparr>)
        else if k = 1 then Inr (quiet_process\<lparr>stderr_read := Some (Inl TimeoutError)\<rparr>)
        else if k = 2 then Inr (quiet_process\<lparr>wait_outcome := (\<lambda>k. Some TimeoutError)\<rparr>)
        else if k = 3 then Inr (quiet_process\<lparr>wait_outcome := (\<lambda>k. Some (Exc ''connection lost''))\<rparr>)
        else Inl (Exc ''sandbox is gone''))\<rparr>"

section \<open>What the operations leave unchanged\<close>

lemma log_simps [simp]:
  "trace (log e w) = trace w @ [e]"
  "n_restarts (log e w) = n_restarts w"
  "n_exec (log e w) = n_exec w"
  "exec_outcome (log e w) = exec_outcome w"
  "n_create (log e w) = n_create w"
  "n_terminate (log e w) = n_terminate w"
  "terminate_outcome (log e w) = terminate_outcome w"
  "create_outcome (log e w) = create_outcome w"
  "app_lookup_outcome (log e w) = app_lookup_outcome w"
  "volume_outcome (log e w) = volume_outcome w"
  by (simp_all add: log_def)

lemma exec_frame [simp]:
  "n_restarts (snd (sandbox_exec c timeout w)) = n_restarts w"
  "n_terminate (snd (sandbox_exec c timeout w)) = n_terminate w"
  "terminate_outcome (snd (sandbox_exec c timeout w)) = terminate_outcome w"
  "n_exec (snd (sandbox_exec c timeout w)) = Suc (n_exec w)"
  "exec_outcome (snd (sandbox_exec c timeout w)) = exec_outcome w"
  by (simp_all add: sandbox_exec_def split: sum.splits)

lemma communicate_frame [simp]:
  "n_restarts (fst (snd (communicate_with_python payload timeout w s))) = n_restarts w"
  "n_terminate (fst (snd (communicate_with_python payload timeout w s))) = n_terminate w"
  "terminate_outcome (fst (snd (communicate_with_python payload timeout w s))) = terminate_outcome w"
  "n_exec (fst (snd (communicate_with_python payload timeout w s))) = n_exec w"
  "exec_outcome (fst (snd (communicate_with_python payload timeout w s))) = exec_outcome w"
  "sb (snd (snd (communicate_with_python payload timeout w s))) = sb s"
  "session_id (snd (snd (communicate_with_python payload timeout w s))) = session_id s"
  by (simp_all add: communicate_with_python_def proc_write_def proc_readline_def
      split: option.splits)

lemma start_frame [simp]:
  "n_restarts (fst (snd (start_python_session timeout w s))) = n_restarts w"
  "n_terminate (fst (snd (start_python_session timeout w s))) = n_terminate w"
  "terminate_outcome (fst (snd (start_python_session timeout w s))) = terminate_outcome w"
  "n_exec (fst (snd (start_python_session timeout w s))) = Suc (n_exec w)"
  "exec_outcome (fst (snd (start_python_session timeout w s))) = exec_outcome w"
  "sb (snd (snd (start_python_session timeout w s))) = sb s"
  "session_id (snd (snd (start_python_session timeout w s))) = session_id s"
  by (simp_all add: start_python_session_def case_prod_beta split: sum.splits)

lemma stop_frame [simp]:
  "n_restarts (fst (stop_python_session w s)) = n_restarts w"
  "n_terminate (fst (stop_python_session w s)) = n_terminate w"
  "terminate_outcome (fst (stop_python_session w s)) = terminate_outcome w"
  "n_exec (fst (stop_python_session w s)) = n_exec w"
  "exec_outcome (fst (stop_python_session w s)) = exec_outcome w"
  "sb (snd (stop_python_session w s)) = sb s"
  "session_id (snd (stop_python_session w s)) = session_id s"
  "python_proc (snd (stop_python_session w s)) = None"
  by (simp_all add: stop_python_session_def proc_write_def proc_readline_def proc_wait_def
      case_prod_beta split: option.splits)

lemma ensure_frame [simp]:
  "n_restarts (fst (snd (ensure_python_session timeout w s))) = n_restarts w"
  "n_terminate (fst (snd (ensure_python_session timeout w s))) = n_terminate w"
  "terminate_outcome (fst (snd (ensure_python_session timeout w s))) = terminate_outcome w"
  "exec_outcome (fst (snd (ensure_python_session timeout w s))) = exec_outcome w"
  "sb (snd (snd (ensure_python_session timeout w s))) = sb s"
  "session_id (snd (snd (ensure_python_session timeout w s))) = session_id s"
  by (simp_all add: ensure_python_session_def)

lemma restart_frame [simp]:
  "n_restarts (fst (snd (restart_python_session timeout w s))) = Suc (n_restarts w)"
  "n_terminate (fst (snd (restart_python_session timeout w s))) = n_terminate w"
  "terminate_outcome (fst (snd (restart_python_session timeout w s))) = terminate_outcome w"
  "exec_outcome (fst (snd (restart_python_session timeout w s))) = exec_outcome w"
  "sb (snd (snd (restart_python_session timeout w s))) = sb s"
  "session_id (snd (snd (restart_python_session timeout w s))) = session_id s"
  by (simp_all add: restart_python_session_def case_prod_beta)

lemma attempt_frame [simp]:
  "n_restarts (fst (snd (python_attempt code timeout w s))) = n_restarts w"
  "n_terminate (fst (snd (python_attempt code timeout w s))) = n_terminate w"
  "terminate_outcome (fst (snd (python_attempt code timeout w s))) = terminate_outcome w"
  "exec_outcome (fst (snd (python_attempt code timeout w s))) = exec_outcome w"
  "sb (snd (snd (python_attempt code timeout w s))) = sb s"
  "session_id (snd (snd (python_attempt code timeout w s))) = session_id s"
  by (simp_all add: python_attempt_def case_prod_beta split: sum.splits)

lemma attempts_rel:
  assumes A: "\<And>w s. R (w, s) (snd (python_attempt code timeout w s))"
      and B: "\<And>w s. R (w, s) (snd (restart_python_session timeout w s))"
      and R_refl: "\<And>x. R x x"
      and R_trans: "\<And>x y z. R x y \<Longrightarrow> R y z \<Longrightarrow> R x z"
  shows "R (w, s) (snd (python_attempts n le code timeout w s))"
proof (induction n arbitrary: le w s)
  case 0
  show ?case by (simp add: R_refl)
next
  case (Suc n)
  obtain r w1 s1 where a: "python_attempt code timeout w s = (r, w1, s1)"
    by (cases "python_attempt code timeout w s") auto
  have r1: "R (w, s) (w1, s1)" using A [of w s] a by simp
  obtain r2 w2 s2 where b: "restart_python_session timeout w1 s1 = (r2, w2, s2)"
    by (cases "restart_python_session timeout w1 s1") auto
  have r2: "R (w1, s1) (w2, s2)" using B [of w1 s1] b by simp
  have r12: "R (w, s) (w2, s2)" using R_trans [OF r1 r2] .
  show ?case
  proof (cases r)
    case (Inr res)
    then show ?thesis using a r1 by simp
  next
    case (Inl e)
    show ?thesis
    proof (cases e)
      case TimeoutError
      then show ?thesis using Inl a r1 by simp
    next
      case (Exc m)
      show ?thesis
      proof (cases r2)
        case (Inl e2)
        then show ?thesis using Exc \<open>r = Inl e\<close> a b r12 by simp
      next
        case (Inr u)
        have "R (w2, s2) (snd (python_attempts n (Some m) code timeout w2 s2))"
          by (rule Suc.IH)
        then have "R (w, s) (snd (python_attempts n (Some m) code timeout w2 s2))"
          using R_trans [OF r12] by blast
        then show ?thesis using Exc \<open>r = Inl e\<close> Inr a b by simp
      qed
    qed
  qed
qed

lemma attempts_same: "same_sandbox (w, s) (snd (python_attempts n le code timeout w s))"
  by (rule attempts_rel) (simp_all add: same_sandbox_def)

lemma attempts_frame [simp]:
  "n_terminate (fst (snd (python_attempts n le code timeout w s))) = n_terminate w"
  "terminate_outcome (fst (snd (python_attempts n le code timeout w s))) = terminate_outcome w"
  "exec_outcome (fst (snd (python_attempts n le code timeout w s))) = exec_outcome w"
  "sb (snd (snd (python_attempts n le code timeout w s))) = sb s"
  "session_id (snd (snd (python_attempts n le code timeout w s))) = session_id s"
  using attempts_same [of w s n le code timeout] by (simp_all add: same_sandbox_def)

lemma attempts_restarts:
  "n_restarts w \<le> n_restarts (fst (snd (python_attempts n le code timeout w s)))
   \<and> n_restarts (fst (snd (python_attempts n le code timeout w s))) \<le> n_restarts w + n"
proof (induction n arbitrary: le w s)
  case 0
  show ?case by simp
next
  case (Suc n)
  obtain r w1 s1 where a: "python_attempt code timeout w s = (r, w1, s1)"
    by (cases "python_attempt code timeout w s") auto
  have w1: "n_restarts w1 = n_restarts w"
    using attempt_frame(1) [of code timeout w s] a by simp
  obtain r2 w2 s2 where b: "restart_python_session timeout w1 s1 = (r2, w2, s2)"
    by (cases "restart_python_session timeout w1 s1") auto
  have w2: "n_restarts w2 = Suc (n_restarts w)"
    using restart_frame(1) [of timeout w1 s1] b w1 by simp
  show ?case
  proof (cases r)
    case (Inr res)
    with a w1 show ?thesis by simp
  next
    case (Inl e)
    show ?thesis
    proof (cases e)
      case TimeoutError
      with Inl a w1 show ?thesis by simp
    next
      case (Exc m)
      show ?thesis
      proof (cases r2)
        case (Inl e2)
        with Exc \<open>r = Inl e\<close> a b w2 show ?thesis by simp
      next
        case (Inr u)
        have "n_restarts w2 \<le> n_restarts (fst (snd (python_attempts n (Some m) code timeout w2 s2)))
              \<and> n_restarts (fst (snd (python_attempts n (Some m) code timeout w2 s2))) \<le> n_restarts w2 + n"
          by (rule Suc.IH)
        with Exc \<open>r = Inl e\<close> Inr a b w2 show ?thesis by simp
      qed
    qed
  qed
qed

section \<open>One exchange on a running session\<close>

lemma communicate_ready:
  assumes "ready s p payload"
  shows "communicate_with_python payload timeout w s =
           (decode_response (line_at p (n_reads p) timeout),
            after_exchange p payload w, s\<lparr>python_proc := Some (exchanged p)\<rparr>)"
  using assms
  by (simp add: ready_def communicate_with_python_def proc_write_def proc_readline_def
      after_exchange_def exchanged_def)

lemma attempt_ready:
  assumes "ready s p (code_request code)"
  shows "python_attempt code timeout w s =
           ((case decode_response (line_at p (n_reads p) timeout) of
               Inl e \<Rightarrow> Inl e | Inr j \<Rightarrow> build_result j),
            after_exchange p (code_request code) w, s\<lparr>python_proc := Some (exchanged p)\<rparr>)"
proof -
  have "python_proc s \<noteq> None" using assms by (simp add: ready_def)
  then show ?thesis
    using communicate_ready [OF assms, of timeout w]
    by (simp add: python_attempt_def ensure_python_session_def split: sum.splits)
qed

lemma build_result_response [simp]:
  "build_result (response ok out err) =
     Inr \<lparr>success = ok, stdout = JStr out, stderr = JStr err, error = None\<rparr>"
  by (simp add: build_result_def response_def py_get_def)

lemma build_result_obj:
  "build_result (JObj kvs) =
     Inr \<lparr>success = truthy (case map_of kvs ''ok'' of None \<Rightarrow> JBool False | Some v \<Rightarrow> v),
          stdout = (case map_of kvs ''stdout'' of None \<Rightarrow> JStr [] | Some v \<Rightarrow> v),
          stderr = (case map_of kvs ''stderr'' of None \<Rightarrow> JStr [] | Some v \<Rightarrow> v),
          error = None\<rparr>"
  by (simp add: build_result_def py_get_def)

lemma build_result_not_obj:
  "(\<forall>kvs. j \<noteq> JObj kvs) \<Longrightarrow> \<exists>m. build_result j = Inl (Exc m)"
  by (cases j) (simp_all add: build_result_def py_get_def)

lemma after_exchange_simps [simp]:
  "n_restarts (after_exchange p m w) = n_restarts w"
  "trace (after_exchange p m w) = trace w @ [EvWrite (pid p) m, EvReadLine (pid p)]"
  "n_exec (after_exchange p m w) = n_exec w"
  by (simp_all add: after_exchange_def)

lemma exchanged_simps [simp]:
  "pid (exchanged p) = pid p"
  "n_reads (exchanged p) = Suc (n_reads p)"
  "n_writes (exchanged p) = Suc (n_writes p)"
  "stdin_present (exchanged p) = stdin_present p"
  "stdout_present (exchanged p) = stdout_present p"
  "line_at (exchanged p) = line_at p"
  "write_outcome (exchanged p) = write_outcome p"
  by (simp_all add: exchanged_def)

lemma after_exchange_exchanged [simp]:
  "after_exchange (exchanged p) m w = after_exchange p m w"
  by (simp add: after_exchange_def)

lemma failed_attempt_restarts:
  assumes "python_attempt code timeout w s = (Inl (Exc m), w1, s1)"
  shows "Suc (n_restarts w) \<le> n_restarts (fst (snd (execute_python code timeout w s)))"
proof -
  have w1: "n_restarts w1 = n_restarts w"
    using attempt_frame(1) [of code timeout w s] assms by simp
  obtain r2 w2 s2 where b: "restart_python_session timeout w1 s1 = (r2, w2, s2)"
    by (cases "restart_python_session timeout w1 s1") auto
  have w2: "n_restarts w2 = Suc (n_restarts w)"
    using restart_frame(1) [of timeout w1 s1] b w1 by simp
  show ?thesis
  proof (cases r2)
    case (Inl e)
    with assms b w2 show ?thesis by (simp add: execute_python_def numeral_2_eq_2)
  next
    case (Inr u)
    have "n_restarts w2 \<le> n_restarts (fst (snd (python_attempts 1 (Some m) code timeout w2 s2)))"
      using attempts_restarts [of w2 1 "Some m" code timeout s2] by simp
    with Inr assms b w2 show ?thesis by (simp add: execute_python_def numeral_2_eq_2)
  qed
qed

section \<open>Creating and terminating\<close>

lemma bash_frame [simp]:
  "n_terminate (fst (snd (execute_bash command timeout w s))) = n_terminate w"
  "terminate_outcome (fst (snd (execute_bash command timeout w s))) = terminate_outcome w"
  "snd (snd (execute_bash command timeout w s)) = s"
  by (auto simp: execute_bash_def bash_body_def sandbox_exec_def proc_wait_def
      split: sum.splits option.splits exn.splits prod.splits)

lemma execute_python_frame [simp]:
  "n_terminate (fst (snd (execute_python code timeout w s))) = n_terminate w"
  "terminate_outcome (fst (snd (execute_python code timeout w s))) = terminate_outcome w"
  "sb (snd (snd (execute_python code timeout w s))) = sb s"
  by (simp_all add: execute_python_def)

lemma terminate_trace:
  "trace (fst (snd (terminate w s))) = trace (fst (stop_python_session w s)) @ [EvTerminate (sb s)]"
  by (simp add: terminate_def case_prod_beta)

lemma terminate_result:
  "fst (terminate w s) = (case terminate_outcome w (n_terminate w) of None \<Rightarrow> Inr () | Some e \<Rightarrow> Inl e)"
  by (simp add: terminate_def case_prod_beta)

lemma create_frame:
  assumes "create sid timeout w = (Inr s0, w1)"
  shows "terminate_outcome w1 = terminate_outcome w" "n_terminate w1 = n_terminate w"
    "sb s0 = n_create w"
  using assms by (auto simp: create_def Let_def split: option.splits)

section \<open>The invariant of the requests written to a process\<close>

lemma requests_simps [simp]:
  "requests q [] = []"
  "requests q (tr @ tr') = requests q tr @ requests q tr'"
  "requests q (e # tr) = request_of q e @ requests q tr"
  by (simp_all add: requests_def)

lemma code_not_terminate [simp]: "code_request c \<noteq> terminate_request"
  by (simp add: code_request_def terminate_request_def)

lemma exec_requests [simp]:
  "requests q (trace (snd (sandbox_exec c timeout w))) = requests q (trace w)"
  by (simp add: sandbox_exec_def split: sum.splits)

lemma exec_pid: "fst (sandbox_exec c timeout w) = Inr p \<Longrightarrow> pid p = n_exec w"
  by (auto simp: sandbox_exec_def split: sum.splits)

lemma stop_requests [simp]:
  "requests q (trace (fst (stop_python_session w s))) = requests q (trace w)"
  by (simp add: stop_python_session_def proc_write_def proc_readline_def proc_wait_def
      case_prod_beta split: option.splits)

lemma communicate_requests:
  "requests q (trace (fst (snd (communicate_with_python (code_request c) timeout w s)))) =
     requests q (trace w) @
       (case python_proc s of
          None \<Rightarrow> []
        | Some p \<Rightarrow> if stdin_present p \<and> stdout_present p \<and> pid p = q
                    then [code_request c] else [])"
  by (simp add: communicate_with_python_def proc_write_def proc_readline_def
      split: option.splits)

lemma communicate_proc:
  "python_proc (snd (snd (communicate_with_python payload timeout w s))) = Some p'
   \<Longrightarrow> \<exists>p. python_proc s = Some p \<and> pid p' = pid p
          \<and> stdin_present p' = stdin_present p \<and> stdout_present p' = stdout_present p"
  by (auto simp: communicate_with_python_def proc_write_def proc_readline_def
      split: option.splits if_splits)

lemma communicate_inv:
  assumes "session_inv (w, s)"
  shows "session_inv (snd (communicate_with_python (code_request c) timeout w s))"
proof -
  let ?x = "snd (communicate_with_python (code_request c) timeout w s)"
  have tr: "\<And>q. requests q (trace (fst ?x)) =
     requests q (trace w) @
       (case python_proc s of
          None \<Rightarrow> []
        | Some p \<Rightarrow> if stdin_present p \<and> stdout_present p \<and> pid p = q
                    then [code_request c] else [])"
    using communicate_requests by simp
  have ne: "n_exec (fst ?x) = n_exec w" by simp
  show ?thesis
    unfolding session_inv_def
  proof (intro conjI allI impI)
    fix q
    have i: "init_first q (trace w)" using assms by (simp add: session_inv_def)
    show "init_first q (trace (fst ?x))"
    proof (cases "requests q (trace w)")
      case Nil
      then have "\<not> (\<exists>p. python_proc s = Some p \<and> stdin_present p \<and> stdout_present p
                      \<and> pid p = q)"
        using assms by (auto simp: session_inv_def)
      then have "requests q (trace (fst ?x)) = []"
        using tr [of q] Nil by (auto split: option.splits)
      then show ?thesis by (simp add: init_first_def)
    next
      case (Cons m ms)
      then obtain ms' where "requests q (trace (fst ?x)) = m # ms'"
        using tr [of q] by (auto split: option.splits)
      then show ?thesis using i Cons by (simp add: init_first_def)
    qed
  next
    fix q assume "n_exec (fst ?x) \<le> q"
    then show "requests q (trace (fst ?x)) = []"
      using assms tr [of q] ne
      by (auto simp: session_inv_def split: option.splits)
  next
    fix p' assume p': "python_proc (snd ?x) = Some p'"
    then obtain p where p: "python_proc s = Some p" "pid p' = pid p"
      "stdin_present p' = stdin_present p" "stdout_present p' = stdout_present p"
      using communicate_proc [of "code_request c" timeout w s p'] by auto
    show "pid p' < n_exec (fst ?x)"
      using assms p ne by (simp add: session_inv_def)
    assume "stdin_present p' \<and> stdout_present p'"
    then show "requests (pid p') (trace (fst ?x)) \<noteq> []"
      using p tr [of "pid p"] by simp
  qed
qed


lemma inv_frame:
  assumes "session_inv (w, s)"
      and "\<And>q. requests q (trace w') = requests q (trace w)"
      and "n_exec w \<le> n_exec w'"
      and "python_proc s' = None \<or> python_proc s' = python_proc s"
  shows "session_inv (w', s')"
  unfolding session_inv_def
proof (intro conjI allI impI)
  fix q
  show "init_first q (trace (fst (w', s')))"
    using assms(1,2) by (simp add: session_inv_def init_first_def)
next
  fix q assume "n_exec (fst (w', s')) \<le> q"
  then have "n_exec w \<le> q" using assms(3) by simp
  then show "requests q (trace (fst (w', s'))) = []"
    using assms(1,2) by (simp add: session_inv_def)
next
  fix p assume "python_proc (snd (w', s')) = Some p"
  then have p: "python_proc s = Some p" using assms(4) by auto
  then have "pid p < n_exec w" using assms(1) by (simp add: session_inv_def)
  then show "pid p < n_exec (fst (w', s'))" using assms(3) by simp
  assume "stdin_present p \<and> stdout_present p"
  then show "requests (pid p) (trace (fst (w', s'))) \<noteq> []"
    using assms(1,2) p by (simp add: session_inv_def)
qed

lemma stop_inv:
  assumes "session_inv (w, s)"
  shows "session_inv (stop_python_session w s)"
proof -
  have "session_inv (fst (stop_python_session w s), snd (stop_python_session w s))"
    by (rule inv_frame [OF assms]) simp_all
  then show ?thesis by simp
qed

lemma start_inv:
  assumes "session_inv (w, s)"
  shows "session_inv (snd (start_python_session timeout w s))"
proof (cases "sandbox_exec PythonSession timeout w")
  case (Pair r w1)
  have n1: "n_exec w1 = Suc (n_exec w)"
    using exec_frame(4) [of PythonSession timeout w] Pair by simp
  have t1: "requests q (trace w1) = requests q (trace w)" for q
    using exec_requests [of q PythonSession timeout w] Pair by simp
  have i1: "init_first q (trace w1) = init_first q (trace w)" for q
    using t1 by (simp add: init_first_def)
  show ?thesis
  proof (cases r)
    case (Inl e)
    then have "snd (start_python_session timeout w s) = (w1, s)"
      using Pair by (simp add: start_python_session_def)
    moreover have "session_inv (w1, s)"
      by (rule inv_frame [OF assms t1]) (simp_all add: n1)
    ultimately show ?thesis by simp
  next
    case (Inr p)
    have pid: "pid p = n_exec w"
      using exec_pid [of PythonSession timeout w p] Pair Inr by simp
    let ?y = "snd (communicate_with_python (code_request PYTHON_SESSION_INIT) timeout w1
                     (s\<lparr>python_proc := Some p\<rparr>))"
    have y: "snd (start_python_session timeout w s) = ?y"
      using Pair Inr by (simp add: start_python_session_def case_prod_beta split: sum.splits)
    have ty: "requests q (trace (fst ?y)) =
        requests q (trace w) @
          (if stdin_present p \<and> stdout_present p \<and> n_exec w = q
           then [code_request PYTHON_SESSION_INIT] else [])" for q
      using communicate_requests [of q PYTHON_SESSION_INIT timeout w1 "s\<lparr>python_proc := Some p\<rparr>"]
        t1 [of q] pid by simp
    have ny: "n_exec (fst ?y) = Suc (n_exec w)" using n1 by simp
    have "session_inv ?y"
      unfolding session_inv_def
    proof (intro conjI allI impI)
      fix q
      show "init_first q (trace (fst ?y))"
      proof (cases "n_exec w = q")
        case True
        then have "requests q (trace w) = []" using assms by (simp add: session_inv_def)
        then show ?thesis using ty [of q] by (simp add: init_first_def)
      next
        case False
        then have "requests q (trace (fst ?y)) = requests q (trace w)" using ty [of q] by simp
        then show ?thesis using assms by (simp add: session_inv_def init_first_def)
      qed
    next
      fix q assume "n_exec (fst ?y) \<le> q"
      then have "n_exec w \<le> q" "n_exec w \<noteq> q" using ny by simp_all
      then show "requests q (trace (fst ?y)) = []"
        using ty [of q] assms by (simp add: session_inv_def)
    next
      fix p' assume p': "python_proc (snd ?y) = Some p'"
      then have q: "pid p' = pid p" "stdin_present p' = stdin_present p"
        "stdout_present p' = stdout_present p"
        using communicate_proc [of "code_request PYTHON_SESSION_INIT" timeout w1
            "s\<lparr>python_proc := Some p\<rparr>" p'] by auto
      show "pid p' < n_exec (fst ?y)" using q pid ny by simp
      assume "stdin_present p' \<and> stdout_present p'"
      then show "requests (pid p') (trace (fst ?y)) \<noteq> []"
        using q pid ty [of "n_exec w"] by simp
    qed
    then show ?thesis using y by simp
  qed
qed

lemma restart_inv:
  assumes "session_inv (w, s)"
  shows "session_inv (snd (restart_python_session timeout w s))"
proof -
  have "session_inv (w\<lparr>n_restarts := Suc (n_restarts w)\<rparr>, s)"
    by (rule inv_frame [OF assms]) simp_all
  then have "session_inv (stop_python_session (w\<lparr>n_restarts := Suc (n_restarts w)\<rparr>) s)"
    by (rule stop_inv)
  then show ?thesis
    using start_inv [of "fst (stop_python_session (w\<lparr>n_restarts := Suc (n_restarts w)\<rparr>) s)"
                        "snd (stop_python_session (w\<lparr>n_restarts := Suc (n_restarts w)\<rparr>) s)" timeout]
    by (simp add: restart_python_session_def case_prod_beta)
qed

lemma attempt_inv:
  assumes "session_inv (w, s)"
  shows "session_inv (snd (python_attempt code timeout w s))"
proof -
  let ?e = "ensure_python_session timeout w s"
  have e: "session_inv (snd ?e)"
    using assms start_inv [OF assms, of timeout] by (simp add: ensure_python_session_def)
  have c: "session_inv (snd (communicate_with_python (code_request code) timeout
                               (fst (snd ?e)) (snd (snd ?e))))"
    using communicate_inv [of "fst (snd ?e)" "snd (snd ?e)" code timeout] e by simp
  show ?thesis
    using e c by (simp add: python_attempt_def case_prod_beta split: sum.splits)
qed

lemma execute_python_inv:
  assumes "session_inv (w, s)"
  shows "session_inv (snd (execute_python code timeout w s))"
proof -
  have "session_inv (w, s) \<longrightarrow> session_inv (snd (python_attempts 2 None code timeout w s))"
    by (rule attempts_rel [where R = "\<lambda>x y. session_inv x \<longrightarrow> session_inv y"])
       (simp_all add: attempt_inv restart_inv)
  then show ?thesis using assms by (simp add: execute_python_def)
qed

lemma execute_bash_inv:
  assumes "session_inv (w, s)"
  shows "session_inv (snd (execute_bash command timeout w s))"
proof -
  have n: "n_exec w \<le> n_exec (fst (snd (execute_bash command timeout w s)))"
    by (auto simp: execute_bash_def bash_body_def sandbox_exec_def proc_wait_def
        split: sum.splits option.splits exn.splits prod.splits)
  have t: "requests q (trace (fst (snd (execute_bash command timeout w s))))
                = requests q (trace w)" for q
    by (auto simp: execute_bash_def bash_body_def sandbox_exec_def proc_wait_def
        split: sum.splits option.splits exn.splits prod.splits)
  have "session_inv (fst (snd (execute_bash command timeout w s)),
                     snd (snd (execute_bash command timeout w s)))"
    by (rule inv_frame [OF assms t n]) simp
  then show ?thesis by (simp only: prod.collapse)
qed

lemma terminate_inv:
  assumes "session_inv (w, s)"
  shows "session_inv (snd (terminate w s))"
proof -
  have "session_inv (fst (snd (terminate w s)), snd (snd (terminate w s)))"
    by (rule inv_frame [OF assms]) (simp_all add: terminate_def case_prod_beta)
  then show ?thesis by simp
qed

lemma run_call_inv: "session_inv x \<Longrightarrow> session_inv (run_call c x)"
  by (cases c; cases x) (simp_all add: execute_python_inv execute_bash_inv terminate_inv)

lemma run_calls_inv: "session_inv x \<Longrightarrow> session_inv (run_calls cs x)"
  by (induction cs arbitrary: x) (simp_all add: run_call_inv)


lemma start_trace:
  assumes "exec_outcome w (n_exec w) PythonSession timeout = Inr p"
      and "stdin_present p" and "stdout_present p"
  shows "\<exists>rest. trace (fst (snd (start_python_session timeout w s))) =
           trace w @ [EvExec PythonSession (n_exec w),
                      EvWrite (n_exec w) (code_request PYTHON_SESSION_INIT)] @ rest"
  using assms
  by (simp add: start_python_session_def sandbox_exec_def communicate_with_python_def
      proc_write_def proc_readline_def case_prod_beta split: option.splits sum.splits)

section \<open>The process a restart leaves\<close>





section \<open>The resident loop\<close>

lemma run_response:
  "run ex code ns = (Some r, e, ns') \<Longrightarrow> \<exists>ok out err. r = response ok out err"
  by (auto simp: run_def split: prod.splits exec_outcome.splits)

lemma loop_single:
  assumes "resident_loop ex ns [Doc (code_request code)] = ([Doc r], StdinClosed, ns1)"
  shows "\<exists>ok out err. r = response ok out err"
proof (cases "run ex (JStr code) ns")
  case (fields o1 e ns')
  show ?thesis
  proof (cases o1)
    case None
    with fields assms show ?thesis by (simp add: code_request_def py_get_def)
  next
    case (Some r')
    with fields assms have "direct e @ [printed e r'] = [Doc r]"
      by (simp add: code_request_def py_get_def)
    then have "printed e r' = Doc r"
      by (cases "direct e") auto
    then have "r = r'"
      by (auto simp: printed_def split: option.splits)
    moreover from fields Some have h: "run ex (JStr code) ns = (Some r', e, ns')" by simp
    ultimately show ?thesis using run_response [OF h] by simp
  qed
qed

lemma loop_init_first:
  assumes "run ex (JStr PYTHON_SESSION_INIT) ns = (Some r, e, ns1)"
  shows "resident_loop ex ns (Doc (code_request PYTHON_SESSION_INIT) # ls) =
           (direct e @ printed e r # fst (resident_loop ex ns1 (drop (taken e) ls)),
            snd (resident_loop ex ns1 (drop (taken e) ls)))"
  using assms by (simp add: code_request_def py_get_def case_prod_beta)



section \<open>The example platforms\<close>

text \<open>The definitions a concrete run unfolds.\<close>

lemmas eval_defs =
  execute_python_def python_attempt_def ensure_python_session_def start_python_session_def
  restart_python_session_def stop_python_session_def communicate_with_python_def
  sandbox_exec_def proc_write_def proc_readline_def proc_wait_def log_def
  decode_response_def build_result_def py_get_def
  session_world_def session_process_def quiet_process_def gone_world_def fresh_sandbox_def
  empty_response_def code_request_def terminate_request_def failure_result_def
  timeout_result_def numeral_2_eq_2

lemma session_process_simps [simp]:
  "stdin_present (session_process rs) = True"
  "stdout_present (session_process rs) = True"
  "write_outcome (session_process rs) k m = None"
  "wait_outcome (session_process rs) k = None"
  "n_reads (session_process rs) = 0"
  "n_writes (session_process rs) = 0"
  "n_waits (session_process rs) = 0"
  "line_at (session_process rs) k t = (if k < length rs then rs ! k else Eof)"
  by (simp_all add: session_process_def quiet_process_def)

lemma running_sandbox_simps [simp]:
  "python_proc (running_sandbox p) = Some p"
  "sb (running_sandbox p) = 0"
  by (simp_all add: running_sandbox_def fresh_sandbox_def)

lemma ready_running [simp]: "ready (running_sandbox (session_process rs)) (session_process rs) m"
  by (simp add: ready_def)

section \<open>Exceptions that leave execute\_python\<close>

text \<open>
  C1. The claim: every call of \<open>execute_python\<close> and \<open>execute_bash\<close> returns a result
  and never raises. \<open>execute_bash\<close> does (its model has no other outcome), but
  \<open>execute_python\<close> restarts the session inside its exception handler, where nothing
  catches what the restart raises. On a platform whose \<^verbatim>\<open>exec\<close> raises, the first attempt
  fails in \<open>ensure_python_session\<close>, the handler calls \<open>restart_python_session\<close>, its
  \<^verbatim>\<open>exec\<close> raises again, and that exception reaches the caller.
\<close>

theorem execute_python_raises:
  "fst (execute_python ''x = 1'' 120 gone_world fresh_sandbox) = Inl (Exc ''sandbox is gone'')"
  by (simp add: execute_python_def python_attempt_def ensure_python_session_def
      start_python_session_def restart_python_session_def stop_python_session_def
      sandbox_exec_def gone_world_def fresh_sandbox_def log_def numeral_2_eq_2)

section \<open>What counts as a malformed response\<close>

text \<open>
  C5, as stated: a response line that decodes to anything but a complete well-formed record
  makes the session Failed and is not returned as a result. The source checks less. A record
  that carries only \<^verbatim>\<open>ok\<close> is not well formed in the words of the specification, yet
  \<open>execute_python\<close> returns it as a successful result, and no restart happens.
\<close>

theorem malformed_response_returned:
  "\<not> spec_well_formed_response (JObj [(''ok'', JBool True)])
   \<and> fst (execute_python ''x = 1'' 120 gone_world (running_sandbox sloppy_process))
       = Inr \<lparr>success = True, stdout = JStr [], stderr = JStr [], error = None\<rparr>
   \<and> n_restarts (fst (snd (execute_python ''x = 1'' 120 gone_world (running_sandbox sloppy_process))))
       = n_restarts gone_world"
  by (simp add: execute_python_def numeral_2_eq_2 attempt_ready [of _ sloppy_process]
      sloppy_process_def decode_response_def build_result_obj)

text \<open>
  C5, amended. On a session that can exchange the request: when the wait returns the empty
  read, a line that is not JSON, or a line that decodes to a value that is not an object, the
  attempt fails with an exception other than a timeout and the call restarts the session
  (the count of restarts grows). A line of white space is returned as the empty successful
  result, and a line that decodes to an object is returned as the result whatever its keys
  are, a missing key taking its default (\<^verbatim>\<open>ok\<close> false, \<^verbatim>\<open>stdout\<close> and \<^verbatim>\<open>stderr\<close> empty);
  neither restarts the session.
\<close>

theorem response_decoding:
  assumes "ready s p (code_request code)"
  shows "((line_at p (n_reads p) timeout = Eof
           \<or> (\<exists>m. line_at p (n_reads p) timeout = Line (Garbage m))
           \<or> (\<exists>j. line_at p (n_reads p) timeout = Line (Doc j) \<and> (\<forall>kvs. j \<noteq> JObj kvs)))
          \<longrightarrow> (\<exists>m. python_attempt code timeout w s =
                      (Inl (Exc m), after_exchange p (code_request code) w,
                       s\<lparr>python_proc := Some (exchanged p)\<rparr>))
              \<and> Suc (n_restarts w) \<le> n_restarts (fst (snd (execute_python code timeout w s))))
         \<and> (line_at p (n_reads p) timeout = Line Blank
          \<longrightarrow> execute_python code timeout w s =
                (Inr \<lparr>success = True, stdout = JStr [], stderr = JStr [], error = None\<rparr>,
                 after_exchange p (code_request code) w, s\<lparr>python_proc := Some (exchanged p)\<rparr>))
         \<and> (\<forall>kvs. line_at p (n_reads p) timeout = Line (Doc (JObj kvs))
          \<longrightarrow> execute_python code timeout w s =
                (Inr \<lparr>success = truthy (case map_of kvs ''ok'' of None \<Rightarrow> JBool False | Some v \<Rightarrow> v),
                      stdout = (case map_of kvs ''stdout'' of None \<Rightarrow> JStr [] | Some v \<Rightarrow> v),
                      stderr = (case map_of kvs ''stderr'' of None \<Rightarrow> JStr [] | Some v \<Rightarrow> v),
                      error = None\<rparr>,
                 after_exchange p (code_request code) w, s\<lparr>python_proc := Some (exchanged p)\<rparr>))"
proof -
  note a = attempt_ready [OF assms, of timeout w]
  have bad: "(\<exists>m. python_attempt code timeout w s =
                      (Inl (Exc m), after_exchange p (code_request code) w,
                       s\<lparr>python_proc := Some (exchanged p)\<rparr>))
              \<and> Suc (n_restarts w) \<le> n_restarts (fst (snd (execute_python code timeout w s)))"
    if "line_at p (n_reads p) timeout = Eof
           \<or> (\<exists>m. line_at p (n_reads p) timeout = Line (Garbage m))
           \<or> (\<exists>j. line_at p (n_reads p) timeout = Line (Doc j) \<and> (\<forall>kvs. j \<noteq> JObj kvs))"
  proof -
    have "\<exists>m. python_attempt code timeout w s =
                      (Inl (Exc m), after_exchange p (code_request code) w,
                       s\<lparr>python_proc := Some (exchanged p)\<rparr>)"
      using that a build_result_not_obj by (auto simp: decode_response_def)
    then show ?thesis using failed_attempt_restarts by blast
  qed
  have blank: "execute_python code timeout w s =
                (Inr \<lparr>success = True, stdout = JStr [], stderr = JStr [], error = None\<rparr>,
                 after_exchange p (code_request code) w, s\<lparr>python_proc := Some (exchanged p)\<rparr>)"
    if "line_at p (n_reads p) timeout = Line Blank"
    using that a
    by (simp add: execute_python_def numeral_2_eq_2 decode_response_def empty_response_def
        build_result_obj)
  have obj: "execute_python code timeout w s =
                (Inr \<lparr>success = truthy (case map_of kvs ''ok'' of None \<Rightarrow> JBool False | Some v \<Rightarrow> v),
                      stdout = (case map_of kvs ''stdout'' of None \<Rightarrow> JStr [] | Some v \<Rightarrow> v),
                      stderr = (case map_of kvs ''stderr'' of None \<Rightarrow> JStr [] | Some v \<Rightarrow> v),
                      error = None\<rparr>,
                 after_exchange p (code_request code) w, s\<lparr>python_proc := Some (exchanged p)\<rparr>)"
    if "line_at p (n_reads p) timeout = Line (Doc (JObj kvs))" for kvs
    using that a
    by (simp add: execute_python_def numeral_2_eq_2 decode_response_def build_result_obj)
  show ?thesis using bad blank obj by blast
qed

theorem response_decoding_witness:
  "execute_python ''x = 1'' 120 gone_world (running_sandbox sloppy_process) =
     (Inr \<lparr>success = True, stdout = JStr [], stderr = JStr [], error = None\<rparr>,
      after_exchange sloppy_process (code_request ''x = 1'') gone_world,
      (running_sandbox sloppy_process)\<lparr>python_proc := Some (exchanged sloppy_process)\<rparr>)
   \<and> Suc (n_restarts gone_world)
       \<le> n_restarts (fst (snd (execute_python ''x = 1'' 120 gone_world
                                 (running_sandbox (session_process [])))))"
proof -
  have r: "ready (running_sandbox sloppy_process) sloppy_process (code_request ''x = 1'')"
    by (simp add: sloppy_process_def)
  have l: "line_at sloppy_process (n_reads sloppy_process) 120
            = Line (Doc (JObj [(''ok'', JBool True)]))"
    by (simp add: sloppy_process_def)
  have r2: "ready (running_sandbox (session_process [])) (session_process []) (code_request ''x = 1'')"
    by simp
  have l2: "line_at (session_process []) (n_reads (session_process [])) 120 = Eof"
    by simp
  show ?thesis
    using response_decoding [OF r, of 120 gone_world] l
      response_decoding [OF r2, of 120 gone_world] l2
    by simp
qed

section \<open>Restart and retry\<close>

text \<open>
  C2, as stated: a call that meets a transport or decoding error restarts the session
  exactly once, and no call restarts it more than once. In the source the restart sits in
  the handler of the loop body and runs after every failed attempt, the last one included.
  On a platform whose processes answer the initialization and then die, one call fails twice
  and restarts the session twice before it returns the failure result.
\<close>

theorem two_restarts_in_one_call:
  "fst (execute_python ''x = 1'' 120 dying_world fresh_sandbox)
     = Inr (failure_result ''Python session terminated unexpectedly'')
   \<and> n_restarts dying_world = 0
   \<and> n_restarts (fst (snd (execute_python ''x = 1'' 120 dying_world fresh_sandbox))) = 2"
  by (simp add: eval_defs dying_world_def dying_process_def)

text \<open>
  C2, amended. When the first attempt of a call fails with an exception other than a
  timeout and the call returns a result, the session was restarted after that attempt and the
  same request was tried once more against the restarted session. If that retry yields a
  result or times out, this is what the call returns, after exactly one restart. If the retry
  fails too, the session is restarted a second time and the call returns the failure result
  whose text is that of the retry's error, the last one, after exactly two restarts.
\<close>

theorem restart_and_retry:
  assumes "python_attempt code timeout w s = (Inl (Exc m0), w1, s1)"
      and "execute_python code timeout w s = (Inr r, w', s')"
  shows "\<exists>w2 s2. restart_python_session timeout w1 s1 = (Inr (), w2, s2)
           \<and> n_restarts w2 = Suc (n_restarts w)
           \<and> (case python_attempt code timeout w2 s2 of
                 (Inr r2, w3, s3) \<Rightarrow>
                   r = r2 \<and> w' = w3 \<and> s' = s3 \<and> n_restarts w' = n_restarts w + 1
               | (Inl TimeoutError, w3, s3) \<Rightarrow>
                   r = timeout_result timeout \<and> w' = w3 \<and> s' = s3
                   \<and> n_restarts w' = n_restarts w + 1
               | (Inl (Exc m1), w3, s3) \<Rightarrow>
                   r = failure_result m1
                   \<and> restart_python_session timeout w3 s3 = (Inr (), w', s')
                   \<and> n_restarts w' = n_restarts w + 2)"
proof -
  have w1: "n_restarts w1 = n_restarts w"
    using attempt_frame(1) [of code timeout w s] assms(1) by simp
  obtain r2 w2 s2 where b: "restart_python_session timeout w1 s1 = (r2, w2, s2)"
    by (cases "restart_python_session timeout w1 s1") auto
  have w2: "n_restarts w2 = Suc (n_restarts w)"
    using restart_frame(1) [of timeout w1 s1] b w1 by simp
  have unfold: "execute_python code timeout w s =
      (case r2 of Inl e \<Rightarrow> (Inl e, w2, s2)
       | Inr u \<Rightarrow> python_attempts 1 (Some m0) code timeout w2 s2)"
    using assms(1) b by (simp add: execute_python_def numeral_2_eq_2 split: sum.splits)
  from unfold assms(2) obtain u where r2: "r2 = Inr u"
    by (cases r2) auto
  then have rest: "python_attempts 1 (Some m0) code timeout w2 s2 = (Inr r, w', s')"
    using unfold assms(2) by simp
  obtain r3 w3 s3 where c: "python_attempt code timeout w2 s2 = (r3, w3, s3)"
    by (cases "python_attempt code timeout w2 s2") auto
  have w3: "n_restarts w3 = Suc (n_restarts w)"
    using attempt_frame(1) [of code timeout w2 s2] c w2 by simp
  have tail: "(case (r3, w3, s3) of
                 (Inr r2, w3, s3) \<Rightarrow>
                   r = r2 \<and> w' = w3 \<and> s' = s3 \<and> n_restarts w' = n_restarts w + 1
               | (Inl TimeoutError, w3, s3) \<Rightarrow>
                   r = timeout_result timeout \<and> w' = w3 \<and> s' = s3
                   \<and> n_restarts w' = n_restarts w + 1
               | (Inl (Exc m1), w3, s3) \<Rightarrow>
                   r = failure_result m1
                   \<and> restart_python_session timeout w3 s3 = (Inr (), w', s')
                   \<and> n_restarts w' = n_restarts w + 2)"
  proof (cases r3)
    case (Inr res)
    with rest c w3 show ?thesis by auto
  next
    case (Inl e)
    show ?thesis
    proof (cases e)
      case TimeoutError
      with Inl rest c w3 show ?thesis by auto
    next
      case (Exc m1)
      obtain r4 w4 s4 where d: "restart_python_session timeout w3 s3 = (r4, w4, s4)"
        by (cases "restart_python_session timeout w3 s3") auto
      have w4: "n_restarts w4 = Suc (Suc (n_restarts w))"
        using restart_frame(1) [of timeout w3 s3] d w3 by simp
      from Exc Inl rest c d w4 show ?thesis
        by (cases r4) auto
    qed
  qed
  show ?thesis using b r2 w2 c tail by simp
qed

theorem restart_and_retry_witness:
  "fst (python_attempt ''x = 1'' 120 dying_world fresh_sandbox)
     = Inl (Exc ''Python session terminated unexpectedly'')
   \<and> fst (execute_python ''x = 1'' 120 dying_world fresh_sandbox)
       = Inr (failure_result ''Python session terminated unexpectedly'')
   \<and> (\<exists>w2 s2. restart_python_session 120
                  (fst (snd (python_attempt ''x = 1'' 120 dying_world fresh_sandbox)))
                  (snd (snd (python_attempt ''x = 1'' 120 dying_world fresh_sandbox)))
                = (Inr (), w2, s2)
              \<and> n_restarts w2 = Suc (n_restarts dying_world))"
proof -
  have a: "python_attempt ''x = 1'' 120 dying_world fresh_sandbox =
      (Inl (Exc ''Python session terminated unexpectedly''),
       fst (snd (python_attempt ''x = 1'' 120 dying_world fresh_sandbox)),
       snd (snd (python_attempt ''x = 1'' 120 dying_world fresh_sandbox)))"
    by (simp add: prod_eq_iff) (simp add: eval_defs dying_world_def dying_process_def)
  have b: "execute_python ''x = 1'' 120 dying_world fresh_sandbox =
      (Inr (failure_result ''Python session terminated unexpectedly''),
       fst (snd (execute_python ''x = 1'' 120 dying_world fresh_sandbox)),
       snd (snd (execute_python ''x = 1'' 120 dying_world fresh_sandbox)))"
    by (simp add: prod_eq_iff) (simp add: eval_defs dying_world_def dying_process_def)
  obtain w2 s2 where
    "restart_python_session 120
        (fst (snd (python_attempt ''x = 1'' 120 dying_world fresh_sandbox)))
        (snd (snd (python_attempt ''x = 1'' 120 dying_world fresh_sandbox))) = (Inr (), w2, s2)"
    "n_restarts w2 = Suc (n_restarts dying_world)"
    using restart_and_retry [OF a b] by blast
  then show ?thesis using a b by (metis fst_conv)
qed

section \<open>The one-off helpers\<close>

text \<open>
  C10. Once \<open>run_python\<close> or \<open>run_bash\<close> has created its sandbox, the last call it makes
  on the platform, whatever the inner execute call did, is the termination of that sandbox:
  when the helper ends, by a result or by an exception, \<open>terminate\<close> has run. When the
  platform's termination call does not raise, the helper ends as the inner call did, with its
  result or with its exception; when it raises, the helper raises that exception.
\<close>

theorem helpers_terminate_sandbox:
  assumes "create sid 600 w = (Inr s0, w1)"
  shows "last (trace (snd (run_python code sid w))) = EvTerminate (sb s0)
         \<and> last (trace (snd (run_bash command sid w))) = EvTerminate (sb s0)
         \<and> (terminate_outcome w (n_terminate w) = None
              \<longrightarrow> fst (run_python code sid w) = fst (execute_python code DEFAULT_TIMEOUT w1 s0)
                  \<and> fst (run_bash command sid w)
                       = Inr (fst (execute_bash command DEFAULT_TIMEOUT w1 s0)))
         \<and> (\<forall>e. terminate_outcome w (n_terminate w) = Some e
              \<longrightarrow> fst (run_python code sid w) = Inl e \<and> fst (run_bash command sid w) = Inl e)"
proof -
  obtain r w2 s2 where ex: "execute_python code DEFAULT_TIMEOUT w1 s0 = (r, w2, s2)"
    by (cases "execute_python code DEFAULT_TIMEOUT w1 s0") auto
  have s2: "sb s2 = sb s0" and t2: "terminate_outcome w2 = terminate_outcome w"
    and n2: "n_terminate w2 = n_terminate w"
    using execute_python_frame [of code DEFAULT_TIMEOUT w1 s0] ex create_frame [OF assms]
    by simp_all
  obtain rb wb sb' where eb: "execute_bash command DEFAULT_TIMEOUT w1 s0 = (rb, wb, sb')"
    by (cases "execute_bash command DEFAULT_TIMEOUT w1 s0") auto
  have sb: "sb' = s0" and tb: "terminate_outcome wb = terminate_outcome w"
    and nb: "n_terminate wb = n_terminate w"
    using bash_frame [of command DEFAULT_TIMEOUT w1 s0] eb create_frame [OF assms]
    by simp_all
  have py: "run_python code sid w =
      (case fst (terminate w2 s2) of Inl e \<Rightarrow> Inl e | Inr u \<Rightarrow> r, fst (snd (terminate w2 s2)))"
    using assms ex by (simp add: run_python_def case_prod_beta split: sum.splits)
  have ba: "run_bash command sid w =
      (case fst (terminate wb s0) of Inl e \<Rightarrow> Inl e | Inr u \<Rightarrow> Inr rb, fst (snd (terminate wb s0)))"
    using assms eb sb by (simp add: run_bash_def case_prod_beta split: sum.splits)
  show ?thesis
    using py ba ex eb s2 t2 n2 tb nb
    by (simp add: terminate_trace terminate_result)
qed

theorem helpers_terminate_sandbox_witness:
  "last (trace (snd (run_python ''x = 1'' ''default'' gone_world))) = EvTerminate 0
   \<and> fst (run_python ''x = 1'' ''default'' gone_world) = Inl (Exc ''sandbox is gone'')
   \<and> last (trace (snd (run_bash ''echo hi'' ''default'' shell_world))) = EvTerminate 0
   \<and> fst (run_bash ''echo hi'' ''default'' shell_world)
       = Inr \<lparr>success = True, stdout = JStr (''hi'' @ [CHR 10]), stderr = JStr [], error = None\<rparr>"
proof -
  have c1: "create ''default'' 600 gone_world =
      (Inr fresh_sandbox, log (EvCreate 0 True) (gone_world\<lparr>n_create := Suc 0\<rparr>))"
    by (simp add: create_def gone_world_def fresh_sandbox_def)
  have c2: "create ''default'' 600 shell_world =
      (Inr fresh_sandbox, log (EvCreate 0 True) (shell_world\<lparr>n_create := Suc 0\<rparr>))"
    by (simp add: create_def shell_world_def gone_world_def fresh_sandbox_def)
  have t: "terminate_outcome gone_world (n_terminate gone_world) = None"
    "terminate_outcome shell_world (n_terminate shell_world) = None"
    by (simp_all add: shell_world_def gone_world_def)
  have py: "fst (execute_python ''x = 1'' DEFAULT_TIMEOUT
                  (log (EvCreate 0 True) (gone_world\<lparr>n_create := Suc 0\<rparr>)) fresh_sandbox)
            = Inl (Exc ''sandbox is gone'')"
    by (simp add: eval_defs DEFAULT_TIMEOUT_def)
  have ba: "fst (execute_bash ''echo hi'' DEFAULT_TIMEOUT
                  (log (EvCreate 0 True) (shell_world\<lparr>n_create := Suc 0\<rparr>)) fresh_sandbox)
            = \<lparr>success = True, stdout = JStr (''hi'' @ [CHR 10]), stderr = JStr [], error = None\<rparr>"
    by (simp add: execute_bash_def bash_body_def sandbox_exec_def proc_wait_def log_def
        read_stream_def shell_world_def gone_world_def quiet_process_def DEFAULT_TIMEOUT_def)
  show ?thesis
    using helpers_terminate_sandbox [OF c1, of "''x = 1''" "''echo hi''"]
      helpers_terminate_sandbox [OF c2, of "''x = 1''" "''echo hi''"] t py ba
    by (simp add: fresh_sandbox_def)
qed

section \<open>Shell commands\<close>

text \<open>
  C8. A call of \<open>execute_bash\<close> whose process is spawned, read and waited for without an
  exception returns a result without error text, carrying the decoded standard output and
  standard error, whose success flag is true exactly when the exit code is 0; the platform
  saw the spawn and the wait. When the spawn, the read of standard output, the read of
  standard error or the wait for the process raises, the call returns a result without
  success and with empty output: for \<^verbatim>\<open>TimeoutError\<close> its error text is
  \<^verbatim>\<open>Timeout after Ts\<close>, for any other exception it is the text of the exception. The call
  never touches the \<open>Sandbox\<close> object and never restarts the Python session.
\<close>

theorem execute_bash_outcomes:
  "(\<forall>p out err.
      exec_outcome w (n_exec w) (Bash command) timeout = Inr p
      \<and> read_stream (stdout_present p) (stdout_read p) = Inr out
      \<and> read_stream (stderr_present p) (stderr_read p) = Inr err
      \<and> wait_outcome p (n_waits p) = None
      \<longrightarrow> fst (execute_bash command timeout w s) =
            \<lparr>success = returncode_is_zero (returncode p), stdout = JStr (decode_stream out),
             stderr = JStr (decode_stream err), error = None\<rparr>
          \<and> (\<forall>n. returncode p = Rc n
                \<longrightarrow> success (fst (execute_bash command timeout w s)) = (n = 0))
          \<and> trace (fst (snd (execute_bash command timeout w s))) =
              trace w @ [EvExec (Bash command) (n_exec w), EvWait (n_exec w)])
   \<and> (\<forall>e. exec_outcome w (n_exec w) (Bash command) timeout = Inl e
          \<or> (\<exists>p. exec_outcome w (n_exec w) (Bash command) timeout = Inr p
                \<and> stdout_present p \<and> stdout_read p = Some (Inl e))
          \<or> (\<exists>p out. exec_outcome w (n_exec w) (Bash command) timeout = Inr p
                \<and> read_stream (stdout_present p) (stdout_read p) = Inr out
                \<and> stderr_present p \<and> stderr_read p = Some (Inl e))
          \<or> (\<exists>p out err. exec_outcome w (n_exec w) (Bash command) timeout = Inr p
                \<and> read_stream (stdout_present p) (stdout_read p) = Inr out
                \<and> read_stream (stderr_present p) (stderr_read p) = Inr err
                \<and> wait_outcome p (n_waits p) = Some e)
        \<longrightarrow> fst (execute_bash command timeout w s) =
              (case e of
                 TimeoutError \<Rightarrow>
                   \<lparr>success = False, stdout = JStr [], stderr = JStr [],
                    error = Some (''Timeout after '' @ str_int timeout @ ''s'')\<rparr>
               | Exc m \<Rightarrow>
                   \<lparr>success = False, stdout = JStr [], stderr = JStr [], error = Some m\<rparr>))
   \<and> snd (snd (execute_bash command timeout w s)) = s
   \<and> n_restarts (fst (snd (execute_bash command timeout w s))) = n_restarts w"
proof -
  let ?R = "\<lambda>e. case e of
                 TimeoutError \<Rightarrow>
                   \<lparr>success = False, stdout = JStr [], stderr = JStr [],
                    error = Some (''Timeout after '' @ str_int timeout @ ''s'')\<rparr>
               | Exc m \<Rightarrow>
                   \<lparr>success = False, stdout = JStr [], stderr = JStr [], error = Some m\<rparr>"
  have handler: "fst (execute_bash command timeout w s) = ?R e"
    if "fst (bash_body command timeout w) = Inl e" for e
    using that
    by (cases "bash_body command timeout w"; cases e)
       (simp_all add: execute_bash_def timeout_result_def failure_result_def)
  have ok: "fst (execute_bash command timeout w s) =
            \<lparr>success = returncode_is_zero (returncode p), stdout = JStr (decode_stream out),
             stderr = JStr (decode_stream err), error = None\<rparr>
          \<and> (\<forall>n. returncode p = Rc n
                \<longrightarrow> success (fst (execute_bash command timeout w s)) = (n = 0))
          \<and> trace (fst (snd (execute_bash command timeout w s))) =
              trace w @ [EvExec (Bash command) (n_exec w), EvWait (n_exec w)]"
    if "exec_outcome w (n_exec w) (Bash command) timeout = Inr p
      \<and> read_stream (stdout_present p) (stdout_read p) = Inr out
      \<and> read_stream (stderr_present p) (stderr_read p) = Inr err
      \<and> wait_outcome p (n_waits p) = None" for p out err
    using that
    by (simp add: execute_bash_def bash_body_def sandbox_exec_def proc_wait_def)
  have spawn: "fst (bash_body command timeout w) = Inl e"
    if "exec_outcome w (n_exec w) (Bash command) timeout = Inl e" for e
    using that by (simp add: bash_body_def sandbox_exec_def)
  have out: "fst (bash_body command timeout w) = Inl e"
    if "exec_outcome w (n_exec w) (Bash command) timeout = Inr p"
      and "stdout_present p" and "stdout_read p = Some (Inl e)" for p e
    using that by (simp add: bash_body_def sandbox_exec_def read_stream_def)
  have err: "fst (bash_body command timeout w) = Inl e"
    if "exec_outcome w (n_exec w) (Bash command) timeout = Inr p"
      and "read_stream (stdout_present p) (stdout_read p) = Inr out"
      and "stderr_present p" and "stderr_read p = Some (Inl e)" for p out e
    using that by (simp add: bash_body_def sandbox_exec_def read_stream_def)
  have wait: "fst (bash_body command timeout w) = Inl e"
    if "exec_outcome w (n_exec w) (Bash command) timeout = Inr p"
      and "read_stream (stdout_present p) (stdout_read p) = Inr out"
      and "read_stream (stderr_present p) (stderr_read p) = Inr err"
      and "wait_outcome p (n_waits p) = Some e" for p out err e
    using that by (simp add: bash_body_def sandbox_exec_def proc_wait_def)
  have raised: "fst (execute_bash command timeout w s) = ?R e"
    if "exec_outcome w (n_exec w) (Bash command) timeout = Inl e
          \<or> (\<exists>p. exec_outcome w (n_exec w) (Bash command) timeout = Inr p
                \<and> stdout_present p \<and> stdout_read p = Some (Inl e))
          \<or> (\<exists>p out. exec_outcome w (n_exec w) (Bash command) timeout = Inr p
                \<and> read_stream (stdout_present p) (stdout_read p) = Inr out
                \<and> stderr_present p \<and> stderr_read p = Some (Inl e))
          \<or> (\<exists>p out err. exec_outcome w (n_exec w) (Bash command) timeout = Inr p
                \<and> read_stream (stdout_present p) (stdout_read p) = Inr out
                \<and> read_stream (stderr_present p) (stderr_read p) = Inr err
                \<and> wait_outcome p (n_waits p) = Some e)" for e
  proof -
    have "fst (bash_body command timeout w) = Inl e"
      using that spawn out err wait by blast
    then show ?thesis by (rule handler)
  qed
  have A: "\<forall>p out err.
      exec_outcome w (n_exec w) (Bash command) timeout = Inr p
      \<and> read_stream (stdout_present p) (stdout_read p) = Inr out
      \<and> read_stream (stderr_present p) (stderr_read p) = Inr err
      \<and> wait_outcome p (n_waits p) = None
      \<longrightarrow> fst (execute_bash command timeout w s) =
            \<lparr>success = returncode_is_zero (returncode p), stdout = JStr (decode_stream out),
             stderr = JStr (decode_stream err), error = None\<rparr>
          \<and> (\<forall>n. returncode p = Rc n
                \<longrightarrow> success (fst (execute_bash command timeout w s)) = (n = 0))
          \<and> trace (fst (snd (execute_bash command timeout w s))) =
              trace w @ [EvExec (Bash command) (n_exec w), EvWait (n_exec w)]"
    using ok by blast
  have B: "\<forall>e. exec_outcome w (n_exec w) (Bash command) timeout = Inl e
          \<or> (\<exists>p. exec_outcome w (n_exec w) (Bash command) timeout = Inr p
                \<and> stdout_present p \<and> stdout_read p = Some (Inl e))
          \<or> (\<exists>p out. exec_outcome w (n_exec w) (Bash command) timeout = Inr p
                \<and> read_stream (stdout_present p) (stdout_read p) = Inr out
                \<and> stderr_present p \<and> stderr_read p = Some (Inl e))
          \<or> (\<exists>p out err. exec_outcome w (n_exec w) (Bash command) timeout = Inr p
                \<and> read_stream (stdout_present p) (stdout_read p) = Inr out
                \<and> read_stream (stderr_present p) (stderr_read p) = Inr err
                \<and> wait_outcome p (n_waits p) = Some e)
        \<longrightarrow> fst (execute_bash command timeout w s) = ?R e"
    using raised by blast
  have C: "snd (snd (execute_bash command timeout w s)) = s" by simp
  have D: "n_restarts (fst (snd (execute_bash command timeout w s))) = n_restarts w"
    by (auto simp: execute_bash_def bash_body_def sandbox_exec_def proc_wait_def log_def
        split: sum.splits option.splits exn.splits prod.splits)
  show ?thesis
    by (rule conjI [OF A conjI [OF B conjI [OF C D]]])
qed

theorem execute_bash_outcomes_witness:
  "fst (execute_bash ''echo hi'' 120 shell_world fresh_sandbox) =
     \<lparr>success = True, stdout = JStr (''hi'' @ [CHR 10]), stderr = JStr [], error = None\<rparr>
   \<and> trace (fst (snd (execute_bash ''echo hi'' 120 shell_world fresh_sandbox)))
       = [EvExec (Bash ''echo hi'') 0, EvWait 0]
   \<and> fst (execute_bash ''ls nowhere'' 120 (shell_world\<lparr>n_exec := 1\<rparr>) fresh_sandbox) =
     \<lparr>success = False, stdout = JStr [], stderr = JStr ''no such file'', error = None\<rparr>
   \<and> fst (execute_bash ''sleep 9'' 5 (shell_world\<lparr>n_exec := 2\<rparr>) fresh_sandbox) =
     \<lparr>success = False, stdout = JStr [], stderr = JStr [], error = Some ''Timeout after 5s''\<rparr>
   \<and> fst (execute_bash ''ls'' 5 (shell_world\<lparr>n_exec := 3\<rparr>) fresh_sandbox) =
     \<lparr>success = False, stdout = JStr [], stderr = JStr [], error = Some ''sandbox is gone''\<rparr>
   \<and> fst (execute_bash ''ls'' 5 faulty_shell_world fresh_sandbox) =
     \<lparr>success = False, stdout = JStr [], stderr = JStr [], error = Some ''stream closed''\<rparr>
   \<and> fst (execute_bash ''ls'' 30 (faulty_shell_world\<lparr>n_exec := 1\<rparr>) fresh_sandbox) =
     \<lparr>success = False, stdout = JStr [], stderr = JStr [], error = Some ''Timeout after 30s''\<rparr>
   \<and> fst (execute_bash ''ls'' 5 (faulty_shell_world\<lparr>n_exec := 2\<rparr>) fresh_sandbox) =
     \<lparr>success = False, stdout = JStr [], stderr = JStr [], error = Some ''Timeout after 5s''\<rparr>
   \<and> fst (execute_bash ''ls'' 5 (faulty_shell_world\<lparr>n_exec := 3\<rparr>) fresh_sandbox) =
     \<lparr>success = False, stdout = JStr [], stderr = JStr [], error = Some ''connection lost''\<rparr>
   \<and> snd (snd (execute_bash ''echo hi'' 120 shell_world fresh_sandbox)) = fresh_sandbox"
proof -
  have 1: "fst (execute_bash ''echo hi'' 120 shell_world fresh_sandbox) =
     \<lparr>success = True, stdout = JStr (''hi'' @ [CHR 10]), stderr = JStr [], error = None\<rparr>
   \<and> trace (fst (snd (execute_bash ''echo hi'' 120 shell_world fresh_sandbox)))
       = [EvExec (Bash ''echo hi'') 0, EvWait 0]"
    using execute_bash_outcomes [of shell_world "''echo hi''" 120 fresh_sandbox, THEN conjunct1]
    by (simp add: shell_world_def gone_world_def quiet_process_def read_stream_def)
  have 2: "fst (execute_bash ''ls nowhere'' 120 (shell_world\<lparr>n_exec := 1\<rparr>) fresh_sandbox) =
     \<lparr>success = False, stdout = JStr [], stderr = JStr ''no such file'', error = None\<rparr>"
    using execute_bash_outcomes [of "shell_world\<lparr>n_exec := 1\<rparr>" "''ls nowhere''" 120 fresh_sandbox,
        THEN conjunct1]
    by (simp add: shell_world_def gone_world_def quiet_process_def read_stream_def)
  have 3: "fst (execute_bash ''sleep 9'' 5 (shell_world\<lparr>n_exec := 2\<rparr>) fresh_sandbox) =
     \<lparr>success = False, stdout = JStr [], stderr = JStr [], error = Some ''Timeout after 5s''\<rparr>"
    using execute_bash_outcomes [of "shell_world\<lparr>n_exec := 2\<rparr>" "''sleep 9''" 5 fresh_sandbox,
        THEN conjunct2, THEN conjunct1, THEN spec, of TimeoutError]
    by (simp add: shell_world_def gone_world_def str_int_def)
  have 4: "fst (execute_bash ''ls'' 5 (shell_world\<lparr>n_exec := 3\<rparr>) fresh_sandbox) =
     \<lparr>success = False, stdout = JStr [], stderr = JStr [], error = Some ''sandbox is gone''\<rparr>"
    using execute_bash_outcomes [of "shell_world\<lparr>n_exec := 3\<rparr>" "''ls''" 5 fresh_sandbox,
        THEN conjunct2, THEN conjunct1, THEN spec, of "Exc ''sandbox is gone''"]
    by (simp add: shell_world_def gone_world_def)
  have 5: "fst (execute_bash ''ls'' 5 faulty_shell_world fresh_sandbox) =
     \<lparr>success = False, stdout = JStr [], stderr = JStr [], error = Some ''stream closed''\<rparr>"
    using execute_bash_outcomes [of faulty_shell_world "''ls''" 5 fresh_sandbox,
        THEN conjunct2, THEN conjunct1, THEN spec, of "Exc ''stream closed''"]
    by (simp add: faulty_shell_world_def gone_world_def quiet_process_def read_stream_def)
  have 6: "fst (execute_bash ''ls'' 30 (faulty_shell_world\<lparr>n_exec := 1\<rparr>) fresh_sandbox) =
     \<lparr>success = False, stdout = JStr [], stderr = JStr [], error = Some ''Timeout after 30s''\<rparr>"
    using execute_bash_outcomes [of "faulty_shell_world\<lparr>n_exec := 1\<rparr>" "''ls''" 30 fresh_sandbox,
        THEN conjunct2, THEN conjunct1, THEN spec, of TimeoutError]
    by (simp add: faulty_shell_world_def gone_world_def quiet_process_def read_stream_def
        str_int_def)
  have 7: "fst (execute_bash ''ls'' 5 (faulty_shell_world\<lparr>n_exec := 2\<rparr>) fresh_sandbox) =
     \<lparr>success = False, stdout = JStr [], stderr = JStr [], error = Some ''Timeout after 5s''\<rparr>"
    using execute_bash_outcomes [of "faulty_shell_world\<lparr>n_exec := 2\<rparr>" "''ls''" 5 fresh_sandbox,
        THEN conjunct2, THEN conjunct1, THEN spec, of TimeoutError]
    by (simp add: faulty_shell_world_def gone_world_def quiet_process_def read_stream_def
        str_int_def)
  have 8: "fst (execute_bash ''ls'' 5 (faulty_shell_world\<lparr>n_exec := 3\<rparr>) fresh_sandbox) =
     \<lparr>success = False, stdout = JStr [], stderr = JStr [], error = Some ''connection lost''\<rparr>"
    using execute_bash_outcomes [of "faulty_shell_world\<lparr>n_exec := 3\<rparr>" "''ls''" 5 fresh_sandbox,
        THEN conjunct2, THEN conjunct1, THEN spec, of "Exc ''connection lost''"]
    by (simp add: faulty_shell_world_def gone_world_def quiet_process_def read_stream_def)
  have 9: "snd (snd (execute_bash ''echo hi'' 120 shell_world fresh_sandbox)) = fresh_sandbox"
    using execute_bash_outcomes [of shell_world "''echo hi''" 120 fresh_sandbox]
    by simp
  show ?thesis
    using 1 2 3 4 5 6 7 8 9 by (intro conjI) (elim conjE, assumption)+
qed

section \<open>A wait that runs out\<close>





section \<open>The line that arrives after the wait ran out\<close>

text \<open>
  C9. After \<open>execute_python\<close> has returned the timeout result, the timed-out request is
  still outstanding on the same process handle: the call consumed the one wait that ran out
  and nothing more, no line is drained. When the resident process then prints its response
  to that request (the line the resident loop computes for it), the next \<open>execute_python\<close>
  call on the same \<open>Sandbox\<close>, whatever its own code, reads that line and returns it as
  its result.
\<close>

theorem stale_response_consumed:
  assumes "ready s p (code_request code1)"
      and "line_at p (n_reads p) timeout1 = ReadRaises TimeoutError"
      and "resident_loop ex ns [Doc (code_request code1)] = ([Doc r1], StdinClosed, ns1)"
      and "line_at p (Suc (n_reads p)) timeout2 = Line (Doc r1)"
      and "write_outcome p (Suc (n_writes p)) (code_request code2) = None"
  shows "execute_python code1 timeout1 w s =
           (Inr (timeout_result timeout1), after_exchange p (code_request code1) w,
            s\<lparr>python_proc := Some (exchanged p)\<rparr>)
         \<and> n_reads (exchanged p) = Suc (n_reads p)
         \<and> (\<exists>ok out err. r1 = response ok out err
              \<and> execute_python code2 timeout2 (after_exchange p (code_request code1) w)
                   (s\<lparr>python_proc := Some (exchanged p)\<rparr>)
                 = (Inr \<lparr>success = ok, stdout = JStr out, stderr = JStr err, error = None\<rparr>,
                    after_exchange p (code_request code2) (after_exchange p (code_request code1) w),
                    s\<lparr>python_proc := Some (exchanged (exchanged p))\<rparr>))"
proof -
  have first: "python_attempt code1 timeout1 w s =
      (Inl TimeoutError, after_exchange p (code_request code1) w,
       s\<lparr>python_proc := Some (exchanged p)\<rparr>)"
    using attempt_ready [OF assms(1), of timeout1 w] assms(2) by (simp add: decode_response_def)
  have call: "execute_python code1 timeout1 w s =
      (Inr (timeout_result timeout1), after_exchange p (code_request code1) w,
       s\<lparr>python_proc := Some (exchanged p)\<rparr>)"
    using first by (simp add: execute_python_def numeral_2_eq_2)
  obtain ok out err where r1: "r1 = response ok out err"
    using loop_single [OF assms(3)] by blast
  have r: "ready (s\<lparr>python_proc := Some (exchanged p)\<rparr>) (exchanged p) (code_request code2)"
    using assms(1,5) by (simp add: ready_def)
  have second: "execute_python code2 timeout2 (after_exchange p (code_request code1) w)
                   (s\<lparr>python_proc := Some (exchanged p)\<rparr>)
                 = (Inr \<lparr>success = ok, stdout = JStr out, stderr = JStr err, error = None\<rparr>,
                    after_exchange p (code_request code2) (after_exchange p (code_request code1) w),
                    s\<lparr>python_proc := Some (exchanged (exchanged p))\<rparr>)"
    using attempt_ready [OF r, of timeout2 "after_exchange p (code_request code1) w"] assms(4) r1
    by (simp add: execute_python_def numeral_2_eq_2 decode_response_def)
  show ?thesis using call r1 second by simp
qed

theorem stale_response_consumed_witness:
  "fst (execute_python ''print(1)'' 5 gone_world (running_sandbox late_process))
     = Inr (timeout_result 5)
   \<and> resident_loop toy_exec 0 [Doc (code_request ''print(1)'')]
       = ([Doc (response True (''1'' @ [CHR 10]) [])], StdinClosed, 1)
   \<and> fst (execute_python ''x = 7'' 5
        (fst (snd (execute_python ''print(1)'' 5 gone_world (running_sandbox late_process))))
        (snd (snd (execute_python ''print(1)'' 5 gone_world (running_sandbox late_process)))))
     = Inr \<lparr>success = True, stdout = JStr (''1'' @ [CHR 10]), stderr = JStr [], error = None\<rparr>"
proof -
  have r: "ready (running_sandbox late_process) late_process (code_request ''print(1)'')"
    by (simp add: late_process_def)
  have l: "line_at late_process (n_reads late_process) 5 = ReadRaises TimeoutError"
    by (simp add: late_process_def)
  have loop: "resident_loop toy_exec 0 [Doc (code_request ''print(1)'')]
       = ([Doc (response True (''1'' @ [CHR 10]) [])], StdinClosed, 1)"
    by (simp add: code_request_def py_get_def run_def toy_exec_def quiet_effect_def printed_def)
  have l2: "line_at late_process (Suc (n_reads late_process)) 5
             = Line (Doc (response True (''1'' @ [CHR 10]) []))"
    by (simp add: late_process_def)
  have w2: "write_outcome late_process (Suc (n_writes late_process)) (code_request ''x = 7'') = None"
    by (simp add: late_process_def)
  show ?thesis
    using stale_response_consumed [OF r l loop l2 w2, of gone_world] loop
    by (auto simp: response_def)
qed

section \<open>The resident loop and a corrupted line\<close>




section \<open>The registry\<close>

text \<open>
  C7, as stated: release followed by release succeeds both times. \<open>cleanup_sandbox\<close>
  calls \<open>terminate\<close> before it deletes the entry and catches nothing. On a platform whose
  termination call raises, the release of a registered id raises that exception and the id
  stays registered; a second release finds the entry, calls \<open>terminate\<close> again and raises
  again.
\<close>

theorem release_raises_twice:
  "cleanup_sandbox ''claude'' stuck_world [''claude'' \<mapsto> fresh_sandbox]
     = (Inl (Exc ''terminate failed''),
        stuck_world\<lparr>n_terminate := 1, trace := [EvTerminate 0]\<rparr>,
        [''claude'' \<mapsto> fresh_sandbox])
   \<and> cleanup_sandbox ''claude'' (stuck_world\<lparr>n_terminate := 1, trace := [EvTerminate 0]\<rparr>)
        [''claude'' \<mapsto> fresh_sandbox]
     = (Inl (Exc ''terminate failed''),
        stuck_world\<lparr>n_terminate := 2, trace := [EvTerminate 0, EvTerminate 0]\<rparr>,
        [''claude'' \<mapsto> fresh_sandbox])"
  by (simp add: cleanup_sandbox_def terminate_def stop_python_session_def log_def
      stuck_world_def gone_world_def fresh_sandbox_def)

text \<open>
  C7, amended. For every caller id, \<open>get_sandbox\<close> returns the registered session when
  there is one and changes nothing. When there is none it asks the platform for a sandbox
  (the count of creations grows): if the platform creates it, the new session, with the
  handle of that creation and no process, is registered and returned, the creation is the
  one new call on the platform, and a second \<open>get_sandbox\<close> for the id returns the same
  session and changes nothing; if the application lookup or the creation raises,
  \<open>get_sandbox\<close> raises that exception and registers nothing. \<open>cleanup_sandbox\<close> of
  an id that is not registered returns and changes nothing. For a registered id it stops the
  session and calls the termination of the platform: if that call returns, the entry is
  deleted, and a second \<open>cleanup_sandbox\<close> returns and changes nothing; if it raises,
  \<open>cleanup_sandbox\<close> raises that exception and the id stays registered, with the stopped
  session, so that a second \<open>cleanup_sandbox\<close> calls the termination again and returns or
  raises as that second call does.
\<close>

theorem acquire_and_release:
  "(\<forall>s. reg sid = Some s \<longrightarrow> get_sandbox sid w reg = (Inr s, w, reg))
   \<and> (reg sid = None \<and> app_lookup_outcome w (n_create w) = None
        \<and> create_outcome w (n_create w) = None \<longrightarrow>
      get_sandbox sid w reg =
        (Inr \<lparr>session_id = sid, sb = n_create w, python_proc = None\<rparr>,
         w\<lparr>n_create := Suc (n_create w),
           trace := trace w @ [EvCreate (n_create w) (volume_outcome w (n_create w) = None)]\<rparr>,
         reg(sid \<mapsto> \<lparr>session_id = sid, sb = n_create w, python_proc = None\<rparr>))
      \<and> get_sandbox sid
           (w\<lparr>n_create := Suc (n_create w),
              trace := trace w @ [EvCreate (n_create w) (volume_outcome w (n_create w) = None)]\<rparr>)
           (reg(sid \<mapsto> \<lparr>session_id = sid, sb = n_create w, python_proc = None\<rparr>)) =
        (Inr \<lparr>session_id = sid, sb = n_create w, python_proc = None\<rparr>,
         w\<lparr>n_create := Suc (n_create w),
           trace := trace w @ [EvCreate (n_create w) (volume_outcome w (n_create w) = None)]\<rparr>,
         reg(sid \<mapsto> \<lparr>session_id = sid, sb = n_create w, python_proc = None\<rparr>)))
   \<and> (\<forall>e. reg sid = None
          \<and> (app_lookup_outcome w (n_create w) = Some e
             \<or> app_lookup_outcome w (n_create w) = None \<and> create_outcome w (n_create w) = Some e)
        \<longrightarrow> get_sandbox sid w reg = (Inl e, w\<lparr>n_create := Suc (n_create w)\<rparr>, reg))
   \<and> (reg sid = None \<longrightarrow> cleanup_sandbox sid w reg = (Inr (), w, reg))
   \<and> (\<forall>s0. reg sid = Some s0 \<and> terminate_outcome w (n_terminate w) = None \<longrightarrow>
        cleanup_sandbox sid w reg =
          (Inr (),
           (fst (stop_python_session w s0))
             \<lparr>n_terminate := Suc (n_terminate w),
              trace := trace (fst (stop_python_session w s0)) @ [EvTerminate (sb s0)]\<rparr>,
           reg(sid := None))
        \<and> cleanup_sandbox sid
            ((fst (stop_python_session w s0))
               \<lparr>n_terminate := Suc (n_terminate w),
                trace := trace (fst (stop_python_session w s0)) @ [EvTerminate (sb s0)]\<rparr>)
            (reg(sid := None)) =
          (Inr (),
           (fst (stop_python_session w s0))
             \<lparr>n_terminate := Suc (n_terminate w),
              trace := trace (fst (stop_python_session w s0)) @ [EvTerminate (sb s0)]\<rparr>,
           reg(sid := None)))
   \<and> (\<forall>s0 e. reg sid = Some s0 \<and> terminate_outcome w (n_terminate w) = Some e \<longrightarrow>
        cleanup_sandbox sid w reg =
          (Inl e,
           (fst (stop_python_session w s0))
             \<lparr>n_terminate := Suc (n_terminate w),
              trace := trace (fst (stop_python_session w s0)) @ [EvTerminate (sb s0)]\<rparr>,
           reg(sid \<mapsto> s0\<lparr>python_proc := None\<rparr>))
        \<and> cleanup_sandbox sid
            ((fst (stop_python_session w s0))
               \<lparr>n_terminate := Suc (n_terminate w),
                trace := trace (fst (stop_python_session w s0)) @ [EvTerminate (sb s0)]\<rparr>)
            (reg(sid \<mapsto> s0\<lparr>python_proc := None\<rparr>)) =
          (case terminate_outcome w (Suc (n_terminate w)) of
             None \<Rightarrow>
               (Inr (),
                (fst (stop_python_session w s0))
                  \<lparr>n_terminate := Suc (Suc (n_terminate w)),
                   trace := trace (fst (stop_python_session w s0))
                              @ [EvTerminate (sb s0), EvTerminate (sb s0)]\<rparr>,
                reg(sid := None))
           | Some e' \<Rightarrow>
               (Inl e',
                (fst (stop_python_session w s0))
                  \<lparr>n_terminate := Suc (Suc (n_terminate w)),
                   trace := trace (fst (stop_python_session w s0))
                              @ [EvTerminate (sb s0), EvTerminate (sb s0)]\<rparr>,
                reg(sid \<mapsto> s0\<lparr>python_proc := None\<rparr>))))"
proof -
  let ?NEW = "\<lparr>session_id = sid, sb = n_create w, python_proc = None\<rparr>"
  let ?W1 = "w\<lparr>n_create := Suc (n_create w),
               trace := trace w @ [EvCreate (n_create w) (volume_outcome w (n_create w) = None)]\<rparr>"
  have a: "\<forall>s. reg sid = Some s \<longrightarrow> get_sandbox sid w reg = (Inr s, w, reg)"
    by (simp add: get_sandbox_def)
  have b: "reg sid = None \<and> app_lookup_outcome w (n_create w) = None
        \<and> create_outcome w (n_create w) = None \<longrightarrow>
      get_sandbox sid w reg = (Inr ?NEW, ?W1, reg(sid \<mapsto> ?NEW))
      \<and> get_sandbox sid ?W1 (reg(sid \<mapsto> ?NEW)) = (Inr ?NEW, ?W1, reg(sid \<mapsto> ?NEW))"
    by (simp add: get_sandbox_def create_def Let_def log_def)
  have c: "\<forall>e. reg sid = None
          \<and> (app_lookup_outcome w (n_create w) = Some e
             \<or> app_lookup_outcome w (n_create w) = None \<and> create_outcome w (n_create w) = Some e)
        \<longrightarrow> get_sandbox sid w reg = (Inl e, w\<lparr>n_create := Suc (n_create w)\<rparr>, reg)"
    by (auto simp: get_sandbox_def create_def Let_def)
  have d: "reg sid = None \<longrightarrow> cleanup_sandbox sid w reg = (Inr (), w, reg)"
    by (simp add: cleanup_sandbox_def)
  have tm: "terminate w s0 =
      ((case terminate_outcome w (n_terminate w) of None \<Rightarrow> Inr () | Some e \<Rightarrow> Inl e),
       (fst (stop_python_session w s0))
         \<lparr>n_terminate := Suc (n_terminate w),
          trace := trace (fst (stop_python_session w s0)) @ [EvTerminate (sb s0)]\<rparr>,
       snd (stop_python_session w s0))" for w s0
    by (simp add: terminate_def case_prod_beta log_def)
  have stopped: "snd (stop_python_session w s0) = s0\<lparr>python_proc := None\<rparr>" for w s0
    by (simp add: stop_python_session_def proc_write_def proc_readline_def proc_wait_def
        case_prod_beta split: option.splits)
  have idle: "stop_python_session w' (s0\<lparr>python_proc := None\<rparr>) = (w', s0\<lparr>python_proc := None\<rparr>)"
    for w' s0
    by (simp add: stop_python_session_def)
  have e: "\<forall>s0. reg sid = Some s0 \<and> terminate_outcome w (n_terminate w) = None \<longrightarrow>
        cleanup_sandbox sid w reg =
          (Inr (),
           (fst (stop_python_session w s0))
             \<lparr>n_terminate := Suc (n_terminate w),
              trace := trace (fst (stop_python_session w s0)) @ [EvTerminate (sb s0)]\<rparr>,
           reg(sid := None))
        \<and> cleanup_sandbox sid
            ((fst (stop_python_session w s0))
               \<lparr>n_terminate := Suc (n_terminate w),
                trace := trace (fst (stop_python_session w s0)) @ [EvTerminate (sb s0)]\<rparr>)
            (reg(sid := None)) =
          (Inr (),
           (fst (stop_python_session w s0))
             \<lparr>n_terminate := Suc (n_terminate w),
              trace := trace (fst (stop_python_session w s0)) @ [EvTerminate (sb s0)]\<rparr>,
           reg(sid := None))"
    by (simp add: cleanup_sandbox_def tm)
  have f: "\<forall>s0 e. reg sid = Some s0 \<and> terminate_outcome w (n_terminate w) = Some e \<longrightarrow>
        cleanup_sandbox sid w reg =
          (Inl e,
           (fst (stop_python_session w s0))
             \<lparr>n_terminate := Suc (n_terminate w),
              trace := trace (fst (stop_python_session w s0)) @ [EvTerminate (sb s0)]\<rparr>,
           reg(sid \<mapsto> s0\<lparr>python_proc := None\<rparr>))
        \<and> cleanup_sandbox sid
            ((fst (stop_python_session w s0))
               \<lparr>n_terminate := Suc (n_terminate w),
                trace := trace (fst (stop_python_session w s0)) @ [EvTerminate (sb s0)]\<rparr>)
            (reg(sid \<mapsto> s0\<lparr>python_proc := None\<rparr>)) =
          (case terminate_outcome w (Suc (n_terminate w)) of
             None \<Rightarrow>
               (Inr (),
                (fst (stop_python_session w s0))
                  \<lparr>n_terminate := Suc (Suc (n_terminate w)),
                   trace := trace (fst (stop_python_session w s0))
                              @ [EvTerminate (sb s0), EvTerminate (sb s0)]\<rparr>,
                reg(sid := None))
           | Some e' \<Rightarrow>
               (Inl e',
                (fst (stop_python_session w s0))
                  \<lparr>n_terminate := Suc (Suc (n_terminate w)),
                   trace := trace (fst (stop_python_session w s0))
                              @ [EvTerminate (sb s0), EvTerminate (sb s0)]\<rparr>,
                reg(sid \<mapsto> s0\<lparr>python_proc := None\<rparr>)))"
    by (simp add: cleanup_sandbox_def tm stopped idle split: option.splits)
  show ?thesis
    by (rule conjI [OF a conjI [OF b conjI [OF c conjI [OF d conjI [OF e f]]]]])
qed

theorem acquire_and_release_witness:
  "get_sandbox ''claude'' gone_world [''claude'' \<mapsto> fresh_sandbox]
     = (Inr fresh_sandbox, gone_world, [''claude'' \<mapsto> fresh_sandbox])
   \<and> get_sandbox ''gpt'' gone_world Map.empty
     = (Inr \<lparr>session_id = ''gpt'', sb = 0, python_proc = None\<rparr>,
        gone_world\<lparr>n_create := 1, trace := [EvCreate 0 True]\<rparr>,
        [''gpt'' \<mapsto> \<lparr>session_id = ''gpt'', sb = 0, python_proc = None\<rparr>])
   \<and> get_sandbox ''gemini'' (gone_world\<lparr>n_create := 1, trace := [EvCreate 0 True]\<rparr>)
        [''gpt'' \<mapsto> \<lparr>session_id = ''gpt'', sb = 0, python_proc = None\<rparr>]
     = (Inr \<lparr>session_id = ''gemini'', sb = 1, python_proc = None\<rparr>,
        gone_world\<lparr>n_create := 2, trace := [EvCreate 0 True, EvCreate 1 True]\<rparr>,
        [''gpt'' \<mapsto> \<lparr>session_id = ''gpt'', sb = 0, python_proc = None\<rparr>,
         ''gemini'' \<mapsto> \<lparr>session_id = ''gemini'', sb = 1, python_proc = None\<rparr>])
   \<and> get_sandbox ''gpt'' (gone_world\<lparr>create_outcome := (\<lambda>k. Some (Exc ''quota exceeded''))\<rparr>)
        Map.empty
     = (Inl (Exc ''quota exceeded''),
        gone_world\<lparr>create_outcome := (\<lambda>k. Some (Exc ''quota exceeded'')), n_create := 1\<rparr>,
        Map.empty)
   \<and> cleanup_sandbox ''gemini'' gone_world [''claude'' \<mapsto> fresh_sandbox]
     = (Inr (), gone_world, [''claude'' \<mapsto> fresh_sandbox])
   \<and> cleanup_sandbox ''claude'' gone_world [''claude'' \<mapsto> fresh_sandbox]
     = (Inr (), gone_world\<lparr>n_terminate := 1, trace := [EvTerminate 0]\<rparr>, Map.empty)
   \<and> cleanup_sandbox ''claude'' (gone_world\<lparr>n_terminate := 1, trace := [EvTerminate 0]\<rparr>)
        Map.empty
     = (Inr (), gone_world\<lparr>n_terminate := 1, trace := [EvTerminate 0]\<rparr>, Map.empty)
   \<and> cleanup_sandbox ''claude''
        (gone_world\<lparr>terminate_outcome := (\<lambda>k. if k = 0 then Some (Exc ''busy'') else None)\<rparr>)
        [''claude'' \<mapsto> fresh_sandbox]
     = (Inl (Exc ''busy''),
        gone_world\<lparr>terminate_outcome := (\<lambda>k. if k = 0 then Some (Exc ''busy'') else None),
                   n_terminate := 1, trace := [EvTerminate 0]\<rparr>,
        [''claude'' \<mapsto> fresh_sandbox])
   \<and> cleanup_sandbox ''claude''
        (gone_world\<lparr>terminate_outcome := (\<lambda>k. if k = 0 then Some (Exc ''busy'') else None),
                   n_terminate := 1, trace := [EvTerminate 0]\<rparr>)
        [''claude'' \<mapsto> fresh_sandbox]
     = (Inr (),
        gone_world\<lparr>terminate_outcome := (\<lambda>k. if k = 0 then Some (Exc ''busy'') else None),
                   n_terminate := 2, trace := [EvTerminate 0, EvTerminate 0]\<rparr>,
        Map.empty)"
proof -
  have 1: "get_sandbox ''claude'' gone_world [''claude'' \<mapsto> fresh_sandbox]
     = (Inr fresh_sandbox, gone_world, [''claude'' \<mapsto> fresh_sandbox])"
    using acquire_and_release [of "[''claude'' \<mapsto> fresh_sandbox]" "''claude''" gone_world,
        THEN conjunct1]
    by simp
  have 2: "get_sandbox ''gpt'' gone_world Map.empty
     = (Inr \<lparr>session_id = ''gpt'', sb = 0, python_proc = None\<rparr>,
        gone_world\<lparr>n_create := 1, trace := [EvCreate 0 True]\<rparr>,
        [''gpt'' \<mapsto> \<lparr>session_id = ''gpt'', sb = 0, python_proc = None\<rparr>])"
    using acquire_and_release [of Map.empty "''gpt''" gone_world,
        THEN conjunct2, THEN conjunct1]
    by (simp add: gone_world_def)
  have 3: "get_sandbox ''gemini'' (gone_world\<lparr>n_create := 1, trace := [EvCreate 0 True]\<rparr>)
        [''gpt'' \<mapsto> \<lparr>session_id = ''gpt'', sb = 0, python_proc = None\<rparr>]
     = (Inr \<lparr>session_id = ''gemini'', sb = 1, python_proc = None\<rparr>,
        gone_world\<lparr>n_create := 2, trace := [EvCreate 0 True, EvCreate 1 True]\<rparr>,
        [''gpt'' \<mapsto> \<lparr>session_id = ''gpt'', sb = 0, python_proc = None\<rparr>,
         ''gemini'' \<mapsto> \<lparr>session_id = ''gemini'', sb = 1, python_proc = None\<rparr>])"
    using acquire_and_release
        [of "[''gpt'' \<mapsto> \<lparr>session_id = ''gpt'', sb = 0, python_proc = None\<rparr>]" "''gemini''"
            "gone_world\<lparr>n_create := 1, trace := [EvCreate 0 True]\<rparr>",
        THEN conjunct2, THEN conjunct1]
    by (simp add: gone_world_def)
  have 4: "get_sandbox ''gpt'' (gone_world\<lparr>create_outcome := (\<lambda>k. Some (Exc ''quota exceeded''))\<rparr>)
        Map.empty
     = (Inl (Exc ''quota exceeded''),
        gone_world\<lparr>create_outcome := (\<lambda>k. Some (Exc ''quota exceeded'')), n_create := 1\<rparr>,
        Map.empty)"
    using acquire_and_release
        [of Map.empty "''gpt''"
            "gone_world\<lparr>create_outcome := (\<lambda>k. Some (Exc ''quota exceeded''))\<rparr>",
        THEN conjunct2, THEN conjunct2, THEN conjunct1, THEN spec, of "Exc ''quota exceeded''"]
    by (simp add: gone_world_def)
  have 5: "cleanup_sandbox ''gemini'' gone_world [''claude'' \<mapsto> fresh_sandbox]
     = (Inr (), gone_world, [''claude'' \<mapsto> fresh_sandbox])"
    using acquire_and_release [of "[''claude'' \<mapsto> fresh_sandbox]" "''gemini''" gone_world,
        THEN conjunct2, THEN conjunct2, THEN conjunct2, THEN conjunct1]
    by simp
  have st: "stop_python_session w fresh_sandbox = (w, fresh_sandbox)" for w
    by (simp add: stop_python_session_def fresh_sandbox_def)
  have 67: "cleanup_sandbox ''claude'' gone_world [''claude'' \<mapsto> fresh_sandbox]
     = (Inr (), gone_world\<lparr>n_terminate := 1, trace := [EvTerminate 0]\<rparr>, Map.empty)
   \<and> cleanup_sandbox ''claude'' (gone_world\<lparr>n_terminate := 1, trace := [EvTerminate 0]\<rparr>)
        Map.empty
     = (Inr (), gone_world\<lparr>n_terminate := 1, trace := [EvTerminate 0]\<rparr>, Map.empty)"
    using acquire_and_release [of "[''claude'' \<mapsto> fresh_sandbox]" "''claude''" gone_world,
        THEN conjunct2, THEN conjunct2, THEN conjunct2, THEN conjunct2, THEN conjunct1,
        THEN spec, of fresh_sandbox]
    by (simp add: st) (simp add: gone_world_def fresh_sandbox_def)
  let ?busy = "gone_world\<lparr>terminate_outcome := (\<lambda>k. if k = 0 then Some (Exc ''busy'') else None)\<rparr>"
  have fs: "fresh_sandbox\<lparr>python_proc := None\<rparr> = fresh_sandbox"
    by (simp add: fresh_sandbox_def)
  have 89: "cleanup_sandbox ''claude'' ?busy [''claude'' \<mapsto> fresh_sandbox]
     = (Inl (Exc ''busy''),
        gone_world\<lparr>terminate_outcome := (\<lambda>k. if k = 0 then Some (Exc ''busy'') else None),
                   n_terminate := 1, trace := [EvTerminate 0]\<rparr>,
        [''claude'' \<mapsto> fresh_sandbox])
   \<and> cleanup_sandbox ''claude''
        (gone_world\<lparr>terminate_outcome := (\<lambda>k. if k = 0 then Some (Exc ''busy'') else None),
                   n_terminate := 1, trace := [EvTerminate 0]\<rparr>)
        [''claude'' \<mapsto> fresh_sandbox]
     = (Inr (),
        gone_world\<lparr>terminate_outcome := (\<lambda>k. if k = 0 then Some (Exc ''busy'') else None),
                   n_terminate := 2, trace := [EvTerminate 0, EvTerminate 0]\<rparr>,
        Map.empty)"
    using acquire_and_release [of "[''claude'' \<mapsto> fresh_sandbox]" "''claude''" ?busy,
        THEN conjunct2, THEN conjunct2, THEN conjunct2, THEN conjunct2, THEN conjunct2,
        THEN spec, THEN spec, of fresh_sandbox "Exc ''busy''"]
    by (simp add: st fs) (simp add: gone_world_def fresh_sandbox_def)
  show ?thesis
    using 1 2 3 4 5 67 89 by (intro conjI) (elim conjE, assumption)+
qed

section \<open>The initialization snippet comes first\<close>

text \<open>
  C6. Take a new \<open>Sandbox\<close> object on a platform whose processes so far got the
  initialization snippet first (none got a request, for example) and on which no process
  that does not exist yet was written to, and any history of calls of \<open>execute_python\<close>,
  \<open>execute_bash\<close> and \<open>terminate\<close> on it, whatever they return or raise. Then for
  every process of the platform, the first request written to its standard input, if there is
  one, is the initialization snippet: the resident process of the session, started on first
  use or by a restart, is sent the snippet before any code of a caller. Starting the session
  writes the snippet right after spawning the process, when the process has the two streams.
  And the resident loop, reading the snippet first, runs it first: the lines that follow,
  those the snippet did not read itself, are served in the namespace the snippet left.
\<close>

theorem init_snippet_first:
  assumes "python_proc s = None"
      and "\<forall>q. init_first q (trace w)"
      and "\<forall>q. n_exec w \<le> q \<longrightarrow> requests q (trace w) = []"
  shows "(\<forall>q. init_first q (trace (fst (run_calls cs (w, s)))))
         \<and> (\<forall>p timeout.
               exec_outcome w (n_exec w) PythonSession timeout = Inr p
               \<and> stdin_present p \<and> stdout_present p
               \<longrightarrow> (\<exists>rest. trace (fst (snd (start_python_session timeout w s))) =
                      trace w @ [EvExec PythonSession (n_exec w),
                                 EvWrite (n_exec w) (code_request PYTHON_SESSION_INIT)] @ rest))
         \<and> (\<forall>r e ns1. run ex (JStr PYTHON_SESSION_INIT) ns = (Some r, e, ns1)
               \<longrightarrow> resident_loop ex ns (Doc (code_request PYTHON_SESSION_INIT) # ls) =
                     (direct e @ printed e r # fst (resident_loop ex ns1 (drop (taken e) ls)),
                      snd (resident_loop ex ns1 (drop (taken e) ls))))"
proof -
  have "session_inv (w, s)"
    using assms by (simp add: session_inv_def)
  then have "session_inv (run_calls cs (w, s))" by (rule run_calls_inv)
  then have a: "\<forall>q. init_first q (trace (fst (run_calls cs (w, s))))"
    by (simp add: session_inv_def)
  have b: "\<exists>rest. trace (fst (snd (start_python_session timeout w s))) =
                      trace w @ [EvExec PythonSession (n_exec w),
                                 EvWrite (n_exec w) (code_request PYTHON_SESSION_INIT)] @ rest"
    if "exec_outcome w (n_exec w) PythonSession timeout = Inr p
               \<and> stdin_present p \<and> stdout_present p" for p timeout
    using that start_trace [of w timeout p s] by simp
  have c: "resident_loop ex ns (Doc (code_request PYTHON_SESSION_INIT) # ls) =
                     (direct e @ printed e r # fst (resident_loop ex ns1 (drop (taken e) ls)),
                      snd (resident_loop ex ns1 (drop (taken e) ls)))"
    if "run ex (JStr PYTHON_SESSION_INIT) ns = (Some r, e, ns1)" for r e ns1
    using that by (rule loop_init_first)
  show ?thesis
  proof (intro conjI allI impI)
    fix q show "init_first q (trace (fst (run_calls cs (w, s))))" using a by simp
  next
    fix p timeout
    assume "exec_outcome w (n_exec w) PythonSession timeout = Inr p
               \<and> stdin_present p \<and> stdout_present p"
    then show "\<exists>rest. trace (fst (snd (start_python_session timeout w s))) =
                      trace w @ [EvExec PythonSession (n_exec w),
                                 EvWrite (n_exec w) (code_request PYTHON_SESSION_INIT)] @ rest"
      by (rule b)
  next
    fix r e ns1 assume "run ex (JStr PYTHON_SESSION_INIT) ns = (Some r, e, ns1)"
    then show "resident_loop ex ns (Doc (code_request PYTHON_SESSION_INIT) # ls) =
                     (direct e @ printed e r # fst (resident_loop ex ns1 (drop (taken e) ls)),
                      snd (resident_loop ex ns1 (drop (taken e) ls)))"
      by (rule c)
  qed
qed

theorem init_snippet_first_witness:
  "init_first 0 (trace (fst (run_calls [ExecutePython ''x = 1'' 120, ExecutePython ''print(x)'' 120]
                               (healthy_world, fresh_sandbox))))
   \<and> requests 0 (trace (fst (run_calls [ExecutePython ''x = 1'' 120, ExecutePython ''print(x)'' 120]
                               (healthy_world, fresh_sandbox))))
       = [code_request PYTHON_SESSION_INIT, code_request ''x = 1'', code_request ''print(x)'']"
proof -
  have a: "python_proc fresh_sandbox = None" by (simp add: fresh_sandbox_def)
  have b: "\<forall>q. init_first q (trace healthy_world)"
    by (simp add: healthy_world_def session_world_def gone_world_def init_first_def)
  have b': "\<forall>q. n_exec healthy_world \<le> q \<longrightarrow> requests q (trace healthy_world) = []"
    by (simp add: healthy_world_def session_world_def gone_world_def)
  have c: "requests 0 (trace (fst (run_calls [ExecutePython ''x = 1'' 120, ExecutePython ''print(x)'' 120]
                               (healthy_world, fresh_sandbox))))
       = [code_request PYTHON_SESSION_INIT, code_request ''x = 1'', code_request ''print(x)'']"
    by (simp add: eval_defs healthy_world_def response_def case_prod_beta)
  have d: "init_first 0 (trace (fst (run_calls
               [ExecutePython ''x = 1'' 120, ExecutePython ''print(x)'' 120]
               (healthy_world, fresh_sandbox))))"
    using init_snippet_first [OF a b b',
        of "[ExecutePython ''x = 1'' 120, ExecutePython ''print(x)'' 120]" toy_exec 0 "[]"]
    by (rule conjunct1 [THEN spec])
  show ?thesis using c d by (rule conjI [OF _ _, rotated])
qed

end
